theory Spec2Isabelle
  imports Main "HOL-Library.AList" "HOL-Library.Multiset"
begin

section \<open>JavaScript values and JSON text\<close>

text \<open>
  The values the application hands to the storage gateway and reads back from it.
  Numbers are the integers the code produces (\<^verbatim>\<open>Date.now()\<close>, font sizes). An object is its
  list of own properties in insertion order; none of the property names used by the
  application is an array index, so insertion order is the enumeration order.
  \<open>JUndefined\<close> and \<open>JBigInt\<close> are JavaScript values that JSON cannot carry.
\<close>

datatype jsval =
    JUndefined
  | JNull
  | JBool bool
  | JNum int
  | JStr string
  | JBigInt int
  | JArr "jsval list"
  | JObj "(string \<times> jsval) list"

datatype exn = TypeError | SyntaxError | QuotaExceededError

text \<open>ToBoolean, as used by \<^verbatim>\<open>if (x)\<close>, \<^verbatim>\<open>!x\<close>, \<^verbatim>\<open>x || y\<close> and \<^verbatim>\<open>x ? a : b\<close>.\<close>

fun truthy :: "jsval \<Rightarrow> bool" where
  "truthy JUndefined = False"
| "truthy JNull = False"
| "truthy (JBool b) = b"
| "truthy (JNum n) = (n \<noteq> 0)"
| "truthy (JStr s) = (s \<noteq> [])"
| "truthy (JBigInt n) = (n \<noteq> 0)"
| "truthy (JArr xs) = True"
| "truthy (JObj kvs) = True"

text \<open>Reading a property: \<open>None\<close> stands for \<^verbatim>\<open>undefined\<close> (no such own property).\<close>

fun get_prop :: "jsval \<Rightarrow> string \<Rightarrow> jsval option" where
  "get_prop (JObj kvs) k = map_of kvs k"
| "get_prop v k = None"

text \<open>
  A value is JSON when it has no \<^verbatim>\<open>undefined\<close> and no BigInt inside: these are the values
  \<^verbatim>\<open>JSON.parse\<close> can return.
\<close>

fun json_value :: "jsval \<Rightarrow> bool" where
  "json_value JUndefined = False"
| "json_value (JBigInt n) = False"
| "json_value (JArr xs) = list_all json_value xs"
| "json_value (JObj kvs) = list_all (\<lambda>kv. json_value (snd kv)) kvs"
| "json_value v = True"

fun has_bigint :: "jsval \<Rightarrow> bool" where
  "has_bigint (JBigInt n) = True"
| "has_bigint (JArr xs) = list_ex has_bigint xs"
| "has_bigint (JObj kvs) = list_ex (\<lambda>kv. has_bigint (snd kv)) kvs"
| "has_bigint v = False"

text \<open>
  What \<^verbatim>\<open>JSON.stringify\<close> writes for a value nested in an array or object: an
  \<^verbatim>\<open>undefined\<close> array element becomes \<^verbatim>\<open>null\<close>, an \<^verbatim>\<open>undefined\<close> property is left out.
\<close>

fun json_strip :: "jsval \<Rightarrow> jsval" where
  "json_strip (JArr xs) =
     JArr (map (\<lambda>x. if x = JUndefined then JNull else json_strip x) xs)"
| "json_strip (JObj kvs) =
     JObj (map (\<lambda>kv. (fst kv, json_strip (snd kv))) (filter (\<lambda>kv. snd kv \<noteq> JUndefined) kvs))"
| "json_strip v = v"

text \<open>
  A text held by the browser's store. \<open>Json v\<close> is the JSON text of the value \<open>v\<close>;
  \<open>Garbage s\<close> is any text \<open>s\<close> that is not JSON (the empty text among them).
  \<^verbatim>\<open>JSON.parse\<close> gives back the value of a JSON text and throws a SyntaxError otherwise.
\<close>

datatype item_text = Json jsval | Garbage string

fun JSON_parse :: "item_text \<Rightarrow> exn + jsval" where
  "JSON_parse (Json v) = (if json_value v then Inr v else Inl SyntaxError)"
| "JSON_parse (Garbage s) = Inl SyntaxError"

text \<open>
  \<^verbatim>\<open>JSON.stringify(value)\<close> followed by the conversion to a string that
  \<^verbatim>\<open>localStorage.setItem\<close> applies to its argument: \<^verbatim>\<open>JSON.stringify(undefined)\<close> is
  \<^verbatim>\<open>undefined\<close>, stored as the text \<^verbatim>\<open>undefined\<close>; a BigInt anywhere throws a TypeError.
\<close>

definition JSON_stringify :: "jsval \<Rightarrow> exn + item_text" where
  "JSON_stringify v =
     (if v = JUndefined then Inr (Garbage ''undefined'')
      else if has_bigint v then Inl TypeError
      else Inr (Json (json_strip v)))"


section \<open>The browser: the key-value store, the console and the page\<close>

text \<open>
  The state the application runs against. \<open>storage\<close> is \<^verbatim>\<open>localStorage\<close>, its keys in
  the order \<^verbatim>\<open>localStorage.key(i)\<close> enumerates them; \<open>quota_ok\<close> is the browser's decision
  whether a content of the store fits its quota; \<open>console_errors\<close> collects the messages
  of \<^verbatim>\<open>console.error\<close>; \<open>hidden\<close> tells for each element whether its class list has
  \<^verbatim>\<open>hidden\<close>; \<open>rendered\<close> lists the render hooks the router has invoked and \<open>notified\<close>
  the values handed to the session listeners, in order.
\<close>

type_synonym element = nat

record browser =
  storage :: "(string \<times> item_text) list"
  quota_ok :: "(string \<times> item_text) list \<Rightarrow> bool"
  console_errors :: "string list"
  hidden :: "element \<Rightarrow> bool"
  rendered :: "string list"
  notified :: "jsval list"

text \<open>
  A piece of code is a function from the browser's state to a completion (\<open>Inl\<close> an
  exception thrown, \<open>Inr\<close> a value returned) and the state it leaves behind; what was
  mutated before a throw stays mutated.
\<close>

type_synonym 'a prog = "browser \<Rightarrow> (exn + 'a) \<times> browser"

definition ret :: "'a \<Rightarrow> 'a prog" where
  "ret x = (\<lambda>b. (Inr x, b))"

definition throw :: "exn \<Rightarrow> 'a prog" where
  "throw e = (\<lambda>b. (Inl e, b))"

definition and_then :: "'a prog \<Rightarrow> ('a \<Rightarrow> 'b prog) \<Rightarrow> 'b prog" where
  "and_then m f = (\<lambda>b. case m b of (Inl e, b') \<Rightarrow> (Inl e, b') | (Inr x, b') \<Rightarrow> f x b')"

definition try_catch :: "'a prog \<Rightarrow> (exn \<Rightarrow> 'a prog) \<Rightarrow> 'a prog" where
  "try_catch m h = (\<lambda>b. case m b of (Inl e, b') \<Rightarrow> h e b' | (Inr x, b') \<Rightarrow> (Inr x, b'))"

definition console_error :: "string \<Rightarrow> unit prog" where
  "console_error msg = (\<lambda>b. (Inr (), b\<lparr>console_errors := console_errors b @ [msg]\<rparr>))"

subsection \<open>The browser's own \<^verbatim>\<open>localStorage\<close>\<close>

text \<open>
  \<^verbatim>\<open>localStorage.setItem\<close> throws a QuotaExceededError when the new content does not fit.
  A key that is new is taken to come last in the enumeration; the order is the
  browser's choice, and nothing proved below depends on it.
\<close>

definition localStorage_setItem :: "string \<Rightarrow> item_text \<Rightarrow> unit prog" where
  "localStorage_setItem k t =
     (\<lambda>b. let s = AList.update k t (storage b)
          in if quota_ok b s then (Inr (), b\<lparr>storage := s\<rparr>) else (Inl QuotaExceededError, b))"

definition localStorage_getItem :: "string \<Rightarrow> item_text option prog" where
  "localStorage_getItem k = (\<lambda>b. (Inr (map_of (storage b) k), b))"

definition localStorage_removeItem :: "string \<Rightarrow> unit prog" where
  "localStorage_removeItem k = (\<lambda>b. (Inr (), b\<lparr>storage := AList.delete k (storage b)\<rparr>))"

definition lift_result :: "exn + 'a \<Rightarrow> 'a prog" where
  "lift_result r = (\<lambda>b. (r, b))"

section \<open>LocalStorageService\<close>

definition setItem :: "string \<Rightarrow> jsval \<Rightarrow> bool prog" where
  "setItem key val =
     try_catch
       (and_then (lift_result (JSON_stringify val)) (\<lambda>t.
        and_then (localStorage_setItem key t) (\<lambda>_.
        ret True)))
       (\<lambda>e. and_then (console_error ''Error setting item to Local Storage:'') (\<lambda>_.
            ret False))"

definition getItem :: "string \<Rightarrow> jsval prog" where
  "getItem key =
     try_catch
       (and_then (localStorage_getItem key) (\<lambda>item.
          case item of
            None \<Rightarrow> ret JNull
          | Some t \<Rightarrow> if t = Garbage [] then ret JNull else lift_result (JSON_parse t)))
       (\<lambda>e. and_then (console_error ''Error getting item from Local Storage:'') (\<lambda>_.
            ret JNull))"

definition removeItem :: "string \<Rightarrow> unit prog" where
  "removeItem key =
     try_catch
       (localStorage_removeItem key)
       (\<lambda>e. console_error ''Error removing item from Local Storage:'')"

section \<open>Conversions of the language\<close>

text \<open>The decimal digits of a number, as string concatenation writes it.\<close>

fun show_nat :: "nat \<Rightarrow> string" where
  "show_nat n =
     (if n < 10 then [''0123456789'' ! n]
      else show_nat (n div 10) @ [''0123456789'' ! (n mod 10)])"

declare show_nat.simps [simp del]

definition show_int :: "int \<Rightarrow> string" where
  "show_int i = (if i < 0 then ''-'' @ show_nat (nat (- i)) else show_nat (nat i))"

fun join_with :: "string \<Rightarrow> string list \<Rightarrow> string" where
  "join_with sep [] = []"
| "join_with sep [s] = s"
| "join_with sep (s # t # ss) = s @ sep @ join_with sep (t # ss)"

text \<open>
  ToString, as \<^verbatim>\<open>'campaign_' + x\<close> applies it to \<open>x\<close>: an array is its elements joined by
  commas (\<^verbatim>\<open>null\<close> and \<^verbatim>\<open>undefined\<close> elements as the empty string), any other object is
  \<^verbatim>\<open>[object Object]\<close>.
\<close>

fun to_string :: "jsval \<Rightarrow> string" where
  "to_string JUndefined = ''undefined''"
| "to_string JNull = ''null''"
| "to_string (JBool b) = (if b then ''true'' else ''false'')"
| "to_string (JNum n) = show_int n"
| "to_string (JStr s) = s"
| "to_string (JBigInt n) = show_int n"
| "to_string (JArr xs) =
     join_with '','' (map (\<lambda>x. if x = JNull \<or> x = JUndefined then [] else to_string x) xs)"
| "to_string (JObj kvs) = ''[object Object]''"

text \<open>The value of an expression that may be \<^verbatim>\<open>undefined\<close>.\<close>

fun value_of :: "jsval option \<Rightarrow> jsval" where
  "value_of None = JUndefined"
| "value_of (Some v) = v"

text \<open>
  Strict equality \<^verbatim>\<open>x === y\<close> where one side was freshly parsed from the store: primitives
  are compared by value, and an object or array is a reference no other value shares.
\<close>

fun strict_eq :: "jsval \<Rightarrow> jsval \<Rightarrow> bool" where
  "strict_eq (JArr xs) w = False"
| "strict_eq (JObj kvs) w = False"
| "strict_eq v w = (v = w)"

definition starts_with :: "string \<Rightarrow> string \<Rightarrow> bool" where
  "starts_with s p = (take (length p) s = p)"

text \<open>
  The own enumerable properties that the object spread \<^verbatim>\<open>{...x}\<close> copies: those of an
  object, the indexed elements of an array, the indexed characters of a string, none for
  the other primitives.
\<close>

fun spread_props :: "jsval \<Rightarrow> (string \<times> jsval) list" where
  "spread_props (JObj kvs) = kvs"
| "spread_props (JArr xs) = map (\<lambda>i. (show_nat i, xs ! i)) [0..<length xs]"
| "spread_props (JStr s) = map (\<lambda>i. (show_nat i, JStr [s ! i])) [0..<length s]"
| "spread_props v = []"

section \<open>CampaignService\<close>

definition ACTIVE_CAMPAIGN_KEY :: string where
  "ACTIVE_CAMPAIGN_KEY = ''active_campaign''"

definition CAMPAIGN_PREFIX :: string where
  "CAMPAIGN_PREFIX = ''campaign_''"

definition getActiveCampaign :: "jsval prog" where
  "getActiveCampaign = getItem ACTIVE_CAMPAIGN_KEY"

text \<open>
  \<open>nowIso\<close> is what \<^verbatim>\<open>new Date().toISOString()\<close> returns at the call. The
  \<^verbatim>\<open>console.log\<close> lines are not part of the state.
\<close>

definition setActiveCampaign :: "string \<Rightarrow> jsval \<Rightarrow> unit prog" where
  "setActiveCampaign nowIso campaignData =
     (let campaign = JObj (AList.update ''lastUpdated'' (JStr nowIso) (spread_props campaignData))
      in and_then (setItem ACTIVE_CAMPAIGN_KEY campaign) (\<lambda>_. ret ()))"

text \<open>Reading \<^verbatim>\<open>campaign.id\<close> throws a TypeError when \<open>campaign\<close> is null or undefined.\<close>

definition saveCampaign :: "jsval \<Rightarrow> unit prog" where
  "saveCampaign campaign =
     (if campaign = JNull \<or> campaign = JUndefined then throw TypeError
      else let campaignKey = CAMPAIGN_PREFIX @ to_string (value_of (get_prop campaign ''id''))
           in and_then (setItem campaignKey campaign) (\<lambda>_. ret ()))"

text \<open>
  \<open>nowMs\<close> is what \<^verbatim>\<open>Date.now()\<close> returns at the call: milliseconds since the epoch,
  far below the size at which a number is written with an exponent.
\<close>

definition generateCampaignId :: "nat \<Rightarrow> string" where
  "generateCampaignId nowMs = ''campaign_'' @ show_nat nowMs"

definition createCampaign :: "nat \<Rightarrow> string \<Rightarrow> string \<Rightarrow> jsval prog" where
  "createCampaign nowMs nowIso campaignName =
     (let campaignId = generateCampaignId nowMs;
          newCampaign = JObj
            [(''id'', JStr campaignId),
             (''name'', JStr campaignName),
             (''status'', JStr ''Draft''),
             (''assets'', JObj
                [(''banner'', JNull), (''marketingPage'', JNull), (''landingPage'', JNull)]),
             (''createdAt'', JStr nowIso)]
      in and_then (saveCampaign newCampaign) (\<lambda>_. ret newCampaign))"

text \<open>
  The time value of \<^verbatim>\<open>new Date(x)\<close>, \<open>None\<close> for an invalid date (NaN). \<open>Date_parse\<close> is
  the engine's \<^verbatim>\<open>Date.parse\<close> on strings, taken as a parameter. The values compared come
  from \<open>getItem\<close>, which never returns a BigInt.
\<close>

fun date_value :: "(string \<Rightarrow> int option) \<Rightarrow> jsval \<Rightarrow> int option" where
  "date_value Date_parse JUndefined = None"
| "date_value Date_parse JNull = Some 0"
| "date_value Date_parse (JBool b) = Some (if b then 1 else 0)"
| "date_value Date_parse (JNum n) = (if \<bar>n\<bar> \<le> 8640000000000000 then Some n else None)"
| "date_value Date_parse (JStr s) = Date_parse s"
| "date_value Date_parse (JBigInt n) = None"
| "date_value Date_parse (JArr xs) = Date_parse (to_string (JArr xs))"
| "date_value Date_parse (JObj kvs) = Date_parse (to_string (JObj kvs))"

text \<open>
  The comparator of \<open>getAllCampaigns\<close>:
  \<^verbatim>\<open>(a, b) => new Date(b.lastUpdated) - new Date(a.lastUpdated)\<close>; \<open>None\<close> is NaN.
\<close>

definition by_lastUpdated_desc ::
  "(string \<Rightarrow> int option) \<Rightarrow> jsval \<Rightarrow> jsval \<Rightarrow> int option" where
  "by_lastUpdated_desc Date_parse a b =
     (case (date_value Date_parse (value_of (get_prop b ''lastUpdated'')),
            date_value Date_parse (value_of (get_prop a ''lastUpdated''))) of
        (Some tb, Some ta) \<Rightarrow> Some (tb - ta)
      | _ \<Rightarrow> None)"

text \<open>
  \<^verbatim>\<open>Array.prototype.sort\<close> with a comparator, as a stable insertion sort: an element is
  placed behind every earlier element the comparator does not put after it, and a NaN
  result counts as zero. The sort is stable in every engine; for a comparator that is
  not a consistent ordering the engines may differ in the order they return.
\<close>

fun insert_sorted :: "('a \<Rightarrow> 'a \<Rightarrow> int option) \<Rightarrow> 'a \<Rightarrow> 'a list \<Rightarrow> 'a list" where
  "insert_sorted cmp x [] = [x]"
| "insert_sorted cmp x (y # ys) =
     (case cmp y x of
        Some d \<Rightarrow> if d > 0 then x # y # ys else y # insert_sorted cmp x ys
      | None \<Rightarrow> y # insert_sorted cmp x ys)"

definition array_sort :: "('a \<Rightarrow> 'a \<Rightarrow> int option) \<Rightarrow> 'a list \<Rightarrow> 'a list" where
  "array_sort cmp xs = foldl (\<lambda>acc x. insert_sorted cmp x acc) [] xs"

text \<open>The loop of \<open>getAllCampaigns\<close> over the keys of the store, in their order.\<close>

fun collect_campaigns :: "string list \<Rightarrow> jsval list \<Rightarrow> jsval list prog" where
  "collect_campaigns [] campaigns b = (Inr campaigns, b)"
| "collect_campaigns (key # keys) campaigns b =
     (if starts_with key CAMPAIGN_PREFIX
      then and_then (getItem key) (\<lambda>campaign.
             collect_campaigns keys
               (if truthy campaign then campaigns @ [campaign] else campaigns)) b
      else collect_campaigns keys campaigns b)"

definition getAllCampaigns :: "(string \<Rightarrow> int option) \<Rightarrow> jsval list prog" where
  "getAllCampaigns Date_parse =
     (\<lambda>b. and_then (collect_campaigns (map fst (storage b)) [])
            (\<lambda>campaigns. ret (array_sort (by_lastUpdated_desc Date_parse) campaigns)) b)"

section \<open>UserService\<close>

definition USERS_KEY :: string where
  "USERS_KEY = ''app_users''"

definition getUsers :: "jsval prog" where
  "getUsers = and_then (getItem USERS_KEY) (\<lambda>v. ret (if truthy v then v else JArr []))"

definition saveUsers :: "jsval \<Rightarrow> unit prog" where
  "saveUsers users = and_then (setItem USERS_KEY users) (\<lambda>_. ret ())"

text \<open>
  The callback \<^verbatim>\<open>u => u.username === name\<close>: reading a property of \<^verbatim>\<open>null\<close> or
  \<^verbatim>\<open>undefined\<close> throws a TypeError.
\<close>

definition username_is :: "jsval \<Rightarrow> jsval \<Rightarrow> exn + bool" where
  "username_is name u =
     (if u = JNull \<or> u = JUndefined then Inl TypeError
      else Inr (strict_eq (value_of (get_prop u ''username'')) name))"

fun array_find :: "('a \<Rightarrow> exn + bool) \<Rightarrow> 'a list \<Rightarrow> exn + 'a option" where
  "array_find p [] = Inr None"
| "array_find p (x # xs) =
     (case p x of Inl e \<Rightarrow> Inl e | Inr t \<Rightarrow> if t then Inr (Some x) else array_find p xs)"

fun array_some :: "('a \<Rightarrow> exn + bool) \<Rightarrow> 'a list \<Rightarrow> exn + bool" where
  "array_some p [] = Inr False"
| "array_some p (x # xs) =
     (case p x of Inl e \<Rightarrow> Inl e | Inr t \<Rightarrow> if t then Inr True else array_some p xs)"

text \<open>
  A stored value that is truthy and not an array has no \<^verbatim>\<open>find\<close>, \<^verbatim>\<open>some\<close> or
  \<^verbatim>\<open>push\<close> method: calling it throws a TypeError.
\<close>

definition getUser :: "string \<Rightarrow> jsval option prog" where
  "getUser username =
     and_then getUsers (\<lambda>users.
       case users of
         JArr us \<Rightarrow> lift_result (array_find (username_is (JStr username)) us)
       | _ \<Rightarrow> throw TypeError)"

definition saveUser :: "jsval \<Rightarrow> bool prog" where
  "saveUser user =
     and_then getUsers (\<lambda>users.
       case users of
         JArr us \<Rightarrow>
           and_then (lift_result (array_some (username_is (value_of (get_prop user ''username''))) us))
             (\<lambda>found. if found then ret False
                      else and_then (saveUsers (JArr (us @ [user]))) (\<lambda>_. ret True))
       | _ \<Rightarrow> throw TypeError)"

section \<open>AuthService\<close>

definition CURRENT_USER_KEY :: string where
  "CURRENT_USER_KEY = ''current_user''"

text \<open>
  The listeners are callbacks registered from outside the service; the model records each
  value they are called with and takes them to return normally.
\<close>

definition notifyAuthChange :: "jsval \<Rightarrow> unit prog" where
  "notifyAuthChange user = (\<lambda>b. (Inr (), b\<lparr>notified := notified b @ [user]\<rparr>))"

text \<open>
  \<open>login\<close> and \<open>signup\<close> are \<^verbatim>\<open>async\<close> without a suspension point: the promise they
  return settles with the completion given here.
\<close>

definition login :: "string \<Rightarrow> string \<Rightarrow> bool prog" where
  "login username password =
     and_then (getUser username) (\<lambda>found.
       case found of
         None \<Rightarrow> ret False
       | Some user \<Rightarrow>
           if truthy user \<and> strict_eq (value_of (get_prop user ''password'')) (JStr password)
           then and_then (setItem CURRENT_USER_KEY
                            (JObj [(''username'', value_of (get_prop user ''username''))])) (\<lambda>_.
                and_then (notifyAuthChange
                            (JObj [(''username'', value_of (get_prop user ''username''))])) (\<lambda>_.
                ret True))
           else ret False)"

definition signup :: "string \<Rightarrow> string \<Rightarrow> bool prog" where
  "signup username password =
     (let newUser = JObj [(''username'', JStr username), (''password'', JStr password)]
      in and_then (saveUser newUser) (\<lambda>success.
           if success then login username password else ret False))"

definition getLoggedInUser :: "jsval prog" where
  "getLoggedInUser = getItem CURRENT_USER_KEY"

definition checkLoginStatus :: "unit prog" where
  "checkLoginStatus = and_then getLoggedInUser (\<lambda>user. notifyAuthChange user)"

definition logout :: "unit prog" where
  "logout = and_then (removeItem CURRENT_USER_KEY) (\<lambda>_. notifyAuthChange JNull)"

section \<open>NavigationService\<close>

text \<open>
  \<open>screens\<close> is the registry object: screen ids with the element registered for each, in
  insertion order; \<open>None\<close> is a \<^verbatim>\<open>null\<close> element (\<^verbatim>\<open>getElementById\<close> found nothing).
  \<open>uiController\<close> tells whether \<open>setUIController\<close> has been called.
\<close>

record navigation =
  screens :: "(string \<times> element option) list"
  uiController :: bool

definition registerScreens :: "(string \<times> element option) list \<Rightarrow> navigation \<Rightarrow> navigation" where
  "registerScreens screenElements nav = nav\<lparr>screens := screenElements\<rparr>"

definition classList_add_hidden :: "element \<Rightarrow> unit prog" where
  "classList_add_hidden e = (\<lambda>b. (Inr (), b\<lparr>hidden := (hidden b)(e := True)\<rparr>))"

definition classList_remove_hidden :: "element \<Rightarrow> unit prog" where
  "classList_remove_hidden e = (\<lambda>b. (Inr (), b\<lparr>hidden := (hidden b)(e := False)\<rparr>))"

text \<open>
  \<^verbatim>\<open>Object.values(this.screens).forEach(screen => screen.classList.add('hidden'))\<close>:
  a \<^verbatim>\<open>null\<close> element throws a TypeError, after the elements before it have been hidden.
\<close>

fun hide_each :: "element option list \<Rightarrow> unit prog" where
  "hide_each [] b = (Inr (), b)"
| "hide_each (None # es) b = (Inl TypeError, b)"
| "hide_each (Some e # es) b = and_then (classList_add_hidden e) (\<lambda>_. hide_each es) b"

definition hideAllScreens :: "navigation \<Rightarrow> unit prog" where
  "hideAllScreens nav = hide_each (map snd (screens nav))"

text \<open>
  The render hook of a screen. The hooks redraw an editor or the dashboard and leave the
  screens' class lists alone; the model records which hook was invoked.
\<close>

definition render_hook :: "string \<Rightarrow> unit prog" where
  "render_hook screenId =
     (\<lambda>b. if screenId = ''banner-editor-screen''
            then (Inr (), b\<lparr>rendered := rendered b @ [''bannerEditor.render'']\<rparr>)
          else if screenId = ''marketing-editor-screen''
            then (Inr (), b\<lparr>rendered := rendered b @ [''marketingPageEditor.render'']\<rparr>)
          else if screenId = ''landing-editor-screen''
            then (Inr (), b\<lparr>rendered := rendered b @ [''landingPageEditor.render'']\<rparr>)
          else if screenId = ''dashboard-screen''
            then (Inr (), b\<lparr>rendered := rendered b @ [''campaignService.displayActiveCampaign'']\<rparr>)
          else (Inr (), b))"

text \<open>
  \<^verbatim>\<open>this.screens['main-app-content'].classList\<close> throws a TypeError when that entry is
  missing or \<^verbatim>\<open>null\<close>.
\<close>

definition main_app_content :: "navigation \<Rightarrow> element prog" where
  "main_app_content nav =
     (case map_of (screens nav) ''main-app-content'' of
        Some (Some m) \<Rightarrow> ret m
      | _ \<Rightarrow> throw TypeError)"

definition showScreen :: "navigation \<Rightarrow> string \<Rightarrow> unit prog" where
  "showScreen nav screenId =
     and_then (hideAllScreens nav) (\<lambda>_.
       case map_of (screens nav) screenId of
         Some (Some screen) \<Rightarrow>
           and_then (classList_remove_hidden screen) (\<lambda>_.
           and_then (main_app_content nav) (\<lambda>m.
           and_then (if screenId \<noteq> ''login-screen'' then classList_remove_hidden m
                     else classList_add_hidden m) (\<lambda>_.
           if uiController nav then render_hook screenId else ret ())))
       | _ \<Rightarrow>
           console_error (''Screen with ID '' @ [CHR 0x22] @ screenId @ [CHR 0x22]
                          @ '' not registered.''))"

definition goToLogin :: "navigation \<Rightarrow> unit prog" where
  "goToLogin nav = showScreen nav ''login-screen''"

definition goToDashboard :: "navigation \<Rightarrow> unit prog" where
  "goToDashboard nav =
     and_then getLoggedInUser (\<lambda>user.
       if truthy user then showScreen nav ''dashboard-screen'' else goToLogin nav)"

definition goToBannerEditor :: "navigation \<Rightarrow> unit prog" where
  "goToBannerEditor nav =
     and_then getLoggedInUser (\<lambda>user.
       if truthy user then showScreen nav ''banner-editor-screen'' else goToLogin nav)"

definition goToMarketingPageEditor :: "navigation \<Rightarrow> unit prog" where
  "goToMarketingPageEditor nav =
     and_then getLoggedInUser (\<lambda>user.
       if truthy user then showScreen nav ''marketing-editor-screen'' else goToLogin nav)"

definition goToLandingPageEditor :: "navigation \<Rightarrow> unit prog" where
  "goToLandingPageEditor nav =
     and_then getLoggedInUser (\<lambda>user.
       if truthy user then showScreen nav ''landing-editor-screen'' else goToLogin nav)"

text \<open>The registry as \<open>UIController._registerScreens\<close> builds it from six page elements.\<close>

definition controller_screens ::
  "element option \<Rightarrow> element option \<Rightarrow> element option \<Rightarrow> element option \<Rightarrow>
   element option \<Rightarrow> element option \<Rightarrow> (string \<times> element option) list" where
  "controller_screens loginScreen mainAppContent dashboardScreen bannerEditorScreen
     marketingEditorScreen landingEditorScreen =
     [(''login-screen'', loginScreen),
      (''main-app-content'', mainAppContent),
      (''dashboard-screen'', dashboardScreen),
      (''banner-editor-screen'', bannerEditorScreen),
      (''marketing-editor-screen'', marketingEditorScreen),
      (''landing-editor-screen'', landingEditorScreen)]"

section \<open>The asset editors\<close>

text \<open>
  An editor holds references to the inputs of its form. \<open>inputs\<close> gives the current
  \<^verbatim>\<open>value\<close> of each input by the name of the field that refers to it, \<open>None\<close> when the
  page has no such element (the field is \<^verbatim>\<open>null\<close>); \<open>checkboxes\<close> does the same for
  \<^verbatim>\<open>checked\<close>. The banner editor has no \<open>currentTemplateId\<close>. Whatever an input element does
  to a value assigned to it (a colour or number input rejecting text of another form) is
  outside the model.
\<close>

record editor =
  inputs :: "string \<rightharpoonup> string"
  checkboxes :: "string \<rightharpoonup> bool"
  currentTemplateId :: string

text \<open>\<^verbatim>\<open>this.field?.value || dflt\<close>\<close>

definition value_or :: "editor \<Rightarrow> string \<Rightarrow> string \<Rightarrow> string" where
  "value_or ed field dflt =
     (case inputs ed field of None \<Rightarrow> dflt | Some v \<Rightarrow> if v = [] then dflt else v)"

text \<open>\<^verbatim>\<open>if (this.field) this.field.value = v\<close>\<close>

definition set_if_present :: "string \<Rightarrow> string \<Rightarrow> editor \<Rightarrow> editor" where
  "set_if_present field v ed =
     (if inputs ed field = None then ed else ed\<lparr>inputs := (inputs ed)(field \<mapsto> v)\<rparr>)"

text \<open>
  \<^verbatim>\<open>if (current) this.field.value = current\<close>, where \<open>current\<close> was read from the same
  field: it is non-empty only when the element exists.
\<close>

definition restore :: "string \<Rightarrow> string \<Rightarrow> editor \<Rightarrow> editor" where
  "restore field current ed =
     (if current \<noteq> [] then ed\<lparr>inputs := (inputs ed)(field \<mapsto> current)\<rparr> else ed)"

subsection \<open>LandingPageEditor\<close>

definition landing_templatesDefaults :: "(string \<times> (string \<times> string) list) list" where
  "landing_templatesDefaults =
     [(''template1'',
        [(''title'', ''Boost Your Business!''),
         (''paragraph'', ''Learn how our innovative solutions can help you reach new customers and grow your revenue. Sign up now for a free consultation!''),
         (''imageUrl'', ''https://placehold.co/800x400/eeeeee/333333?text=Your+Amazing+Product''),
         (''ctaText'', ''Get Started Today''),
         (''ctaLink'', ''#signup''),
         (''bgColor'', ''#e0f2f7''),
         (''textColor'', ''#0a2a43'')]),
      (''template2'',
        [(''title'', ''Limited Time Offer!''),
         (''paragraph'', ''Grab this incredible deal before it'' @ [CHR 0x27] @ ''s gone! High-quality products at unbeatable prices.''),
         (''imageUrl'', ''https://placehold.co/800x400/ffe0b2/8d6e63?text=Special+Discount''),
         (''ctaText'', ''Claim Your Discount''),
         (''ctaLink'', ''#discount''),
         (''bgColor'', ''#fce4ec''),
         (''textColor'', ''#4a148c'')]),
      (''template3'',
        [(''title'', ''Join Our Community''),
         (''paragraph'', ''Become part of a thriving community of professionals. Share ideas, gain insights, and connect with peers.''),
         (''imageUrl'', ''https://placehold.co/800x400/c8e6c9/2e7d32?text=Community+Hub''),
         (''ctaText'', ''Join Now''),
         (''ctaLink'', ''#join''),
         (''bgColor'', ''#e8f5e9''),
         (''textColor'', ''#1b5e20'')])]"

text \<open>A property of a template's defaults; every template of a catalog has every property.\<close>

definition preset :: "(string \<times> string) list \<Rightarrow> string \<Rightarrow> string" where
  "preset defaults k = (case map_of defaults k of Some v \<Rightarrow> v | None \<Rightarrow> ''undefined'')"

definition landing_applyTemplate :: "string \<Rightarrow> editor \<Rightarrow> editor" where
  "landing_applyTemplate templateId ed =
     (let currentTitle = value_or ed ''titleInput'' [];
          currentParagraph = value_or ed ''paragraphInput'' [];
          currentImageUrl = value_or ed ''imageUrlInput'' [];
          ed1 = (case map_of landing_templatesDefaults templateId of
                   None \<Rightarrow> ed
                 | Some defaults \<Rightarrow>
                     set_if_present ''textColorInput'' (preset defaults ''textColor'')
                    (set_if_present ''bgColorInput'' (preset defaults ''bgColor'')
                    (set_if_present ''ctaLinkInput'' (preset defaults ''ctaLink'')
                    (set_if_present ''ctaTextInput'' (preset defaults ''ctaText'')
                    (set_if_present ''imageUrlInput'' (preset defaults ''imageUrl'')
                    (set_if_present ''paragraphInput'' (preset defaults ''paragraph'')
                    (set_if_present ''titleInput'' (preset defaults ''title'') ed)))))))
      in restore ''imageUrlInput'' currentImageUrl
        (restore ''paragraphInput'' currentParagraph
        (restore ''titleInput'' currentTitle ed1)))"

subsection \<open>MarketingPageEditor\<close>

definition marketing_templatesDefaults :: "(string \<times> (string \<times> string) list) list" where
  "marketing_templatesDefaults =
     [(''template1'',
        [(''title'', ''Welcome to Our New Campaign!''),
         (''paragraph1'', ''Discover amazing new offers and products designed just for you. Click below to learn more!''),
         (''imageUrl'', ''https://placehold.co/600x200/cccccc/333333?text=Your+Image''),
         (''bgColor'', ''#f8f8f8''),
         (''textColor'', ''#333333'')]),
      (''template2'',
        [(''title'', ''Exclusive Offer Just For You!''),
         (''paragraph1'', ''Don'' @ [CHR 0x27] @ ''t miss out on our limited-time discounts. Get ready for savings that will surprise you!''),
         (''imageUrl'', ''https://placehold.co/600x300/aaddff/000000?text=Special+Deal''),
         (''bgColor'', ''#e0f7fa''),
         (''textColor'', ''#004d40'')]),
      (''template3'',
        [(''title'', ''Quick Update from Our Team''),
         (''paragraph1'', ''We'' @ [CHR 0x27] @ ''ve got exciting news coming soon. Stay tuned for more information.''),
         (''imageUrl'', ''https://placehold.co/200x150/ffcccb/880000?text=News''),
         (''bgColor'', ''#fffde7''),
         (''textColor'', ''#424242'')])]"

definition marketing_applyTemplate :: "string \<Rightarrow> editor \<Rightarrow> editor" where
  "marketing_applyTemplate templateId ed =
     (let currentTitle = value_or ed ''titleInput'' [];
          currentParagraph1 = value_or ed ''paragraph1Input'' [];
          currentImageUrl = value_or ed ''imageUrlInput'' [];
          ed1 = (case map_of marketing_templatesDefaults templateId of
                   None \<Rightarrow> ed
                 | Some defaults \<Rightarrow>
                     set_if_present ''textColorInput'' (preset defaults ''textColor'')
                    (set_if_present ''bgColorInput'' (preset defaults ''bgColor'')
                    (set_if_present ''imageUrlInput'' (preset defaults ''imageUrl'')
                    (set_if_present ''paragraph1Input'' (preset defaults ''paragraph1'')
                    (set_if_present ''titleInput'' (preset defaults ''title'') ed)))))
      in restore ''imageUrlInput'' currentImageUrl
        (restore ''paragraph1Input'' currentParagraph1
        (restore ''titleInput'' currentTitle ed1)))"

subsection \<open>BannerEditor\<close>

definition banner_templates :: "(string \<times> (string \<times> string) list) list" where
  "banner_templates =
     [(''template1'',
        [(''bgColor'', ''#4a90e2''), (''textColor'', ''#ffffff''), (''fontSize'', ''24''),
         (''fontFamily'', ''Arial, sans-serif'')]),
      (''template2'',
        [(''bgColor'', ''#f9c74f''), (''textColor'', ''#333333''), (''fontSize'', ''28''),
         (''fontFamily'', ''Verdana, sans-serif'')]),
      (''template3'',
        [(''bgColor'', ''#e76f51''), (''textColor'', ''#f4f1de''), (''fontSize'', ''20''),
         (''fontFamily'', ''Georgia, serif'')])]"

definition banner_applyTemplate :: "string \<Rightarrow> editor \<Rightarrow> editor" where
  "banner_applyTemplate templateName ed =
     (case map_of banner_templates templateName of
        None \<Rightarrow> ed
      | Some template \<Rightarrow>
          set_if_present ''bannerFontFamilySelect'' (preset template ''fontFamily'')
         (set_if_present ''bannerFontSizeInput'' (preset template ''fontSize'')
         (set_if_present ''bannerTextColorInput'' (preset template ''textColor'')
         (set_if_present ''bannerBgColorInput'' (preset template ''bgColor'') ed))))"

subsection \<open>Saving an asset into the active campaign\<close>

text \<open>
  \<^verbatim>\<open>activeCampaign.assets[slot] = data\<close> in strict code: a TypeError when
  \<^verbatim>\<open>activeCampaign.assets\<close> is undefined, null or a primitive; an extra property on an
  array, which JSON leaves out; the property set on an object.
\<close>

fun assign_asset :: "jsval \<Rightarrow> string \<Rightarrow> jsval \<Rightarrow> exn + jsval" where
  "assign_asset (JObj kvs) slot data =
     (case map_of kvs ''assets'' of
        Some (JObj assets) \<Rightarrow>
          Inr (JObj (AList.update ''assets'' (JObj (AList.update slot data assets)) kvs))
      | Some (JArr xs) \<Rightarrow> Inr (JObj kvs)
      | _ \<Rightarrow> Inl TypeError)"
| "assign_asset campaign slot data = Inl TypeError"

definition save_asset :: "string \<Rightarrow> string \<Rightarrow> jsval \<Rightarrow> unit prog" where
  "save_asset nowIso slot data =
     and_then getActiveCampaign (\<lambda>activeCampaign.
       if \<not> truthy activeCampaign then console_error ''No active campaign to save to.''
       else and_then (lift_result (assign_asset activeCampaign slot data)) (\<lambda>updated.
            and_then (saveCampaign updated) (\<lambda>_.
            setActiveCampaign nowIso updated)))"

definition checked_or_false :: "editor \<Rightarrow> string \<Rightarrow> bool" where
  "checked_or_false ed field = (case checkboxes ed field of None \<Rightarrow> False | Some c \<Rightarrow> c)"

definition landing_pageData :: "editor \<Rightarrow> jsval" where
  "landing_pageData ed = JObj
     [(''templateId'', JStr (currentTemplateId ed)),
      (''title'', JStr (value_or ed ''titleInput'' [])),
      (''paragraph'', JStr (value_or ed ''paragraphInput'' [])),
      (''imageUrl'', JStr (value_or ed ''imageUrlInput'' [])),
      (''ctaText'', JStr (value_or ed ''ctaTextInput'' [])),
      (''ctaLink'', JStr (value_or ed ''ctaLinkInput'' ''#'')),
      (''bgColor'', JStr (value_or ed ''bgColorInput'' ''#e0f2f7'')),
      (''textColor'', JStr (value_or ed ''textColorInput'' ''#0a2a43'')),
      (''includeLeadForm'', JBool (checked_or_false ed ''collectLeadsCheckbox''))]"

definition landing_savePage :: "string \<Rightarrow> editor \<Rightarrow> unit prog" where
  "landing_savePage nowIso ed = save_asset nowIso ''landingPage'' (landing_pageData ed)"

definition marketing_pageData :: "editor \<Rightarrow> jsval" where
  "marketing_pageData ed = JObj
     [(''templateId'', JStr (currentTemplateId ed)),
      (''title'', JStr (value_or ed ''titleInput'' [])),
      (''paragraph1'', JStr (value_or ed ''paragraph1Input'' [])),
      (''imageUrl'', JStr (value_or ed ''imageUrlInput'' [])),
      (''bgColor'', JStr (value_or ed ''bgColorInput'' ''#f8f8f8'')),
      (''textColor'', JStr (value_or ed ''textColorInput'' ''#333333''))]"

definition marketing_savePage :: "string \<Rightarrow> editor \<Rightarrow> unit prog" where
  "marketing_savePage nowIso ed = save_asset nowIso ''marketingPage'' (marketing_pageData ed)"

definition bannerData :: "editor \<Rightarrow> jsval" where
  "bannerData ed = JObj
     [(''type'', JStr (value_or ed ''bannerTypeSelect'' ''square'')),
      (''text'', JStr (value_or ed ''bannerTextInput'' [])),
      (''bgColor'', JStr (value_or ed ''bannerBgColorInput'' ''#ffffff'')),
      (''textColor'', JStr (value_or ed ''bannerTextColorInput'' ''#000000'')),
      (''fontSize'', (case inputs ed ''bannerFontSizeInput'' of
                        None \<Rightarrow> JNum 16
                      | Some v \<Rightarrow> if v = [] then JNum 16 else JStr v)),
      (''fontFamily'', JStr (value_or ed ''bannerFontFamilySelect'' ''sans-serif''))]"

definition saveBanner :: "string \<Rightarrow> editor \<Rightarrow> unit prog" where
  "saveBanner nowIso ed = save_asset nowIso ''banner'' (bannerData ed)"

section \<open>Notions used in the statements\<close>

text \<open>The registered screens whose element does not carry \<^verbatim>\<open>hidden\<close>, in registry order.\<close>

definition visible_screens :: "navigation \<Rightarrow> browser \<Rightarrow> string list" where
  "visible_screens nav b =
     map fst (filter (\<lambda>s. case snd s of None \<Rightarrow> False | Some e \<Rightarrow> \<not> hidden b e) (screens nav))"

text \<open>
  The gateway's \<open>setItem\<close> returns true in this state for this key and value: the value
  serialises and the browser takes the text.
\<close>

definition write_accepted :: "browser \<Rightarrow> string \<Rightarrow> jsval \<Rightarrow> bool" where
  "write_accepted b key val = (fst (setItem key val b) = Inr True)"

text \<open>What \<open>getItem\<close> makes of a stored text: its value, or null when it does not parse.\<close>

definition stored_value :: "item_text \<Rightarrow> jsval" where
  "stored_value t = (case JSON_parse t of Inl e \<Rightarrow> JNull | Inr v \<Rightarrow> v)"

text \<open>
  The campaigns of a store: the truthy values held under keys that start with the
  campaign prefix, in key order.
\<close>

definition stored_campaigns :: "(string \<times> item_text) list \<Rightarrow> jsval list" where
  "stored_campaigns items =
     filter truthy (map (\<lambda>kv. stored_value (snd kv))
       (filter (\<lambda>kv. starts_with (fst kv) CAMPAIGN_PREFIX) items))"

definition has_name :: "string \<Rightarrow> jsval \<Rightarrow> bool" where
  "has_name n c = (get_prop c ''name'' = Some (JStr n))"

text \<open>
  The time a campaign was last updated, as the sort reads it, and a list that has the
  most recently updated campaign first (every campaign in it carrying a valid time).
\<close>

definition lastUpdated_time :: "(string \<Rightarrow> int option) \<Rightarrow> jsval \<Rightarrow> int option" where
  "lastUpdated_time Date_parse c = date_value Date_parse (value_of (get_prop c ''lastUpdated''))"

definition newest_first :: "(string \<Rightarrow> int option) \<Rightarrow> jsval list \<Rightarrow> bool" where
  "newest_first Date_parse campaigns =
     sorted_wrt (\<lambda>a c. the (lastUpdated_time Date_parse a) \<ge> the (lastUpdated_time Date_parse c))
       campaigns"

text \<open>
  The record the claims describe for a new campaign: status Draft, three empty asset
  slots, a creation timestamp, and no \<open>lastUpdated\<close>.
\<close>

definition draft_record :: "string \<Rightarrow> string \<Rightarrow> string \<Rightarrow> jsval" where
  "draft_record campaignId campaignName createdAt = JObj
     [(''id'', JStr campaignId),
      (''name'', JStr campaignName),
      (''status'', JStr ''Draft''),
      (''assets'', JObj [(''banner'', JNull), (''marketingPage'', JNull), (''landingPage'', JNull)]),
      (''createdAt'', JStr createdAt)]"

text \<open>
  Creating a campaign, making it the active one and listing all campaigns, as the
  dashboard does; the clock is read once for the id, once for \<open>createdAt\<close> and once
  for \<open>lastUpdated\<close>.
\<close>

definition create_activate_list ::
  "nat \<Rightarrow> string \<Rightarrow> string \<Rightarrow> (string \<Rightarrow> int option) \<Rightarrow> string \<Rightarrow> jsval list prog" where
  "create_activate_list nowMs createdIso activatedIso Date_parse campaignName =
     and_then (createCampaign nowMs createdIso campaignName) (\<lambda>newCampaign.
     and_then (setActiveCampaign activatedIso newCampaign) (\<lambda>_.
     getAllCampaigns Date_parse))"

text \<open>A user record, the session marker of a user, and a directory that knows a username.\<close>

definition user_record :: "string \<Rightarrow> string \<Rightarrow> jsval" where
  "user_record username password =
     JObj [(''username'', JStr username), (''password'', JStr password)]"

definition session_marker :: "string \<Rightarrow> jsval" where
  "session_marker username = JObj [(''username'', JStr username)]"

definition registered :: "jsval list \<Rightarrow> string \<Rightarrow> bool" where
  "registered us username = list_ex (\<lambda>u. get_prop u ''username'' = Some (JStr username)) us"

section \<open>States for the examples\<close>

text \<open>A browser with the given store and quota rule, nothing logged and nothing hidden.\<close>

definition browser_with ::
  "(string \<times> item_text) list \<Rightarrow> ((string \<times> item_text) list \<Rightarrow> bool) \<Rightarrow> browser" where
  "browser_with items fits =
     \<lparr>storage = items, quota_ok = fits, console_errors = [], hidden = (\<lambda>e. False),
      rendered = [], notified = []\<rparr>"

definition unlimited :: "(string \<times> item_text) list \<Rightarrow> bool" where
  "unlimited items = True"

definition exhausted :: "(string \<times> item_text) list \<Rightarrow> bool" where
  "exhausted items = False"

text \<open>The directory as \<open>createInitialUser\<close> seeds it, and a form with nothing typed.\<close>

definition testuser :: jsval where
  "testuser = JObj [(''username'', JStr ''testuser''), (''password'', JStr ''password123'')]"

definition seeded_browser :: browser where
  "seeded_browser = browser_with [(''app_users'', Json (JArr [testuser]))] unlimited"

definition blank_editor :: editor where
  "blank_editor = \<lparr>inputs = Map.empty, checkboxes = Map.empty, currentTemplateId = ''template1''\<rparr>"

text \<open>
  A router whose registry lacks the editor screens, and a logged-in browser that shows
  the login screen (element 1) only.
\<close>

definition partial_registry :: navigation where
  "partial_registry =
     \<lparr>screens = [(''login-screen'', Some 1), (''main-app-content'', Some 2),
                 (''dashboard-screen'', Some 3)],
      uiController = True\<rparr>"

definition on_login_page :: browser where
  "on_login_page =
     (browser_with [(''current_user'', Json (JObj [(''username'', JStr ''testuser'')]))] unlimited)
       \<lparr>hidden := (\<lambda>e. e \<noteq> 1)\<rparr>"

text \<open>
  The router as the controller wires it, and a browser without a session marker that
  still shows the dashboard (element 3) inside the shell (element 2).
\<close>

definition wired_router :: navigation where
  "wired_router =
     \<lparr>screens = controller_screens (Some 1) (Some 2) (Some 3) (Some 4) (Some 5) (Some 6),
      uiController = True\<rparr>"

definition stale_dashboard :: browser where
  "stale_dashboard = seeded_browser\<lparr>hidden := (\<lambda>e. e \<noteq> 2 \<and> e \<noteq> 3)\<rparr>"

text \<open>Forms in which the user has typed into every field.\<close>

definition typed_landing_form :: editor where
  "typed_landing_form =
     \<lparr>inputs = [''titleInput'' \<mapsto> ''Spring Sale'',
                ''paragraphInput'' \<mapsto> ''Everything must go.'',
                ''imageUrlInput'' \<mapsto> ''https://example.com/spring.png'',
                ''ctaTextInput'' \<mapsto> ''Shop now'',
                ''ctaLinkInput'' \<mapsto> ''#shop'',
                ''bgColorInput'' \<mapsto> ''#123456'',
                ''textColorInput'' \<mapsto> ''#ffffff''],
      checkboxes = [''collectLeadsCheckbox'' \<mapsto> False],
      currentTemplateId = ''template1''\<rparr>"

definition typed_marketing_form :: editor where
  "typed_marketing_form =
     \<lparr>inputs = [''titleInput'' \<mapsto> ''Spring Sale'',
                ''paragraph1Input'' \<mapsto> [],
                ''imageUrlInput'' \<mapsto> ''https://example.com/spring.png'',
                ''bgColorInput'' \<mapsto> ''#123456'',
                ''textColorInput'' \<mapsto> ''#ffffff''],
      checkboxes = Map.empty,
      currentTemplateId = ''template1''\<rparr>"

text \<open>
  Two campaigns of the same name created a day apart, the first one saved from an
  editor since (so that it carries a \<open>lastUpdated\<close>), and stores that hold the first.
\<close>

definition spring_sale :: jsval where
  "spring_sale = draft_record ''campaign_1700000000000'' ''Spring Sale'' ''2023-11-14T22:13:20.000Z''"

definition spring_sale_saved :: jsval where
  "spring_sale_saved = JObj
     [(''id'', JStr ''campaign_1700000000000''),
      (''name'', JStr ''Spring Sale''),
      (''status'', JStr ''Draft''),
      (''assets'', JObj [(''banner'', JNull), (''marketingPage'', JNull), (''landingPage'', JNull)]),
      (''createdAt'', JStr ''2023-11-14T22:13:20.000Z''),
      (''lastUpdated'', JStr ''2023-11-14T22:15:00.000Z'')]"

definition spring_sale_again :: jsval where
  "spring_sale_again =
     draft_record ''campaign_1700086400000'' ''Spring Sale'' ''2023-11-15T22:13:20.000Z''"

definition summer_sale :: jsval where
  "summer_sale = draft_record ''campaign_1700086400000'' ''Summer Sale'' ''2023-11-15T22:13:20.000Z''"

definition summer_sale_saved :: jsval where
  "summer_sale_saved = JObj
     [(''id'', JStr ''campaign_1700086400000''),
      (''name'', JStr ''Summer Sale''),
      (''status'', JStr ''Draft''),
      (''assets'', JObj [(''banner'', JNull), (''marketingPage'', JNull), (''landingPage'', JNull)]),
      (''createdAt'', JStr ''2023-11-15T22:13:20.000Z''),
      (''lastUpdated'', JStr ''2023-11-15T22:13:21.000Z'')]"

definition dated_store :: browser where
  "dated_store =
     browser_with [(''campaign_campaign_1700000000000'', Json spring_sale_saved),
                   (''campaign_campaign_1700086400000'', Json summer_sale_saved)] unlimited"

definition campaign_store :: browser where
  "campaign_store =
     browser_with [(''campaign_campaign_1700000000000'', Json spring_sale_saved)] unlimited"

text \<open>\<^verbatim>\<open>Date.parse\<close> on the timestamps of the examples.\<close>

definition example_Date_parse :: "string \<Rightarrow> int option" where
  "example_Date_parse =
     map_of [(''2023-11-14T22:13:20.000Z'', 1700000000000),
             (''2023-11-14T22:15:00.000Z'', 1700000100000),
             (''2023-11-15T22:13:20.000Z'', 1700086400000),
             (''2023-11-15T22:13:21.000Z'', 1700086401000)]"

text \<open>
  A browser that grants the page no storage at all, as private browsing modes have
  done: every \<^verbatim>\<open>localStorage.setItem\<close> throws.
\<close>

definition private_mode_browser :: browser where
  "private_mode_browser = browser_with [(''app_users'', Json (JArr [testuser]))] exhausted"

section \<open>Facts about the storage gateway\<close>

lemmas prog_defs = ret_def throw_def and_then_def try_catch_def console_error_def
  lift_result_def localStorage_setItem_def localStorage_getItem_def localStorage_removeItem_def
  Let_def

lemma setItem_rejected:
  "JSON_stringify val = Inl e \<Longrightarrow>
   setItem key val b =
     (Inr False, b\<lparr>console_errors := console_errors b @ [''Error setting item to Local Storage:'']\<rparr>)"
  by (simp add: setItem_def prog_defs)

lemma setItem_quota:
  "JSON_stringify val = Inr t \<Longrightarrow> \<not> quota_ok b (AList.update key t (storage b)) \<Longrightarrow>
   setItem key val b =
     (Inr False, b\<lparr>console_errors := console_errors b @ [''Error setting item to Local Storage:'']\<rparr>)"
  by (simp add: setItem_def prog_defs)

lemma setItem_accepted:
  "JSON_stringify val = Inr t \<Longrightarrow> quota_ok b (AList.update key t (storage b)) \<Longrightarrow>
   setItem key val b = (Inr True, b\<lparr>storage := AList.update key t (storage b)\<rparr>)"
  by (simp add: setItem_def prog_defs)

lemma getItem_missing:
  "map_of (storage b) key = None \<Longrightarrow> getItem key b = (Inr JNull, b)"
  by (simp add: getItem_def prog_defs)

lemma getItem_json:
  "map_of (storage b) key = Some (Json v) \<Longrightarrow> json_value v \<Longrightarrow> getItem key b = (Inr v, b)"
  by (simp add: getItem_def prog_defs)

text \<open>
  C8. The gateway's set operation always returns a boolean: false when the value cannot
  be serialised or the browser refuses the write, true otherwise. Its get operation
  always returns a value: null for a missing key or a stored text that does not parse,
  the parsed value otherwise. The remove operation returns normally. None of the three
  ends in a thrown exception.
\<close>

theorem gateway_never_throws:
  "fst (setItem key val b) =
     Inr (case JSON_stringify val of
            Inl e \<Rightarrow> False
          | Inr t \<Rightarrow> quota_ok b (AList.update key t (storage b)))
   \<and> fst (getItem key b) =
     Inr (case map_of (storage b) key of
            None \<Rightarrow> JNull
          | Some t \<Rightarrow> (case JSON_parse t of Inl e \<Rightarrow> JNull | Inr v \<Rightarrow> v))
   \<and> fst (removeItem key b) = Inr ()"
proof (intro conjI)
  show "fst (setItem key val b) =
     Inr (case JSON_stringify val of
            Inl e \<Rightarrow> False
          | Inr t \<Rightarrow> quota_ok b (AList.update key t (storage b)))"
    by (simp add: setItem_def prog_defs split: sum.splits)
  show "fst (getItem key b) =
     Inr (case map_of (storage b) key of
            None \<Rightarrow> JNull
          | Some t \<Rightarrow> (case JSON_parse t of Inl e \<Rightarrow> JNull | Inr v \<Rightarrow> v))"
    by (simp add: getItem_def prog_defs split: option.splits sum.splits)
  show "fst (removeItem key b) = Inr ()"
    by (simp add: removeItem_def prog_defs)
qed

theorem gateway_never_throws_witness:
  "fst (setItem ''k'' (JBigInt 1) (browser_with [] unlimited)) = Inr False
   \<and> fst (setItem ''k'' (JNum 1) (browser_with [] exhausted)) = Inr False
   \<and> fst (setItem ''k'' (JNum 1) (browser_with [] unlimited)) = Inr True
   \<and> fst (getItem ''k'' (browser_with [] unlimited)) = Inr JNull
   \<and> fst (getItem ''k'' (browser_with [(''k'', Garbage ''{oops'')] unlimited)) = Inr JNull
   \<and> fst (getItem ''k'' (browser_with [(''k'', Json (JNum 1))] unlimited)) = Inr (JNum 1)"
  using gateway_never_throws [of "''k''" "JBigInt 1" "browser_with [] unlimited"]
    gateway_never_throws [of "''k''" "JNum 1" "browser_with [] exhausted"]
    gateway_never_throws [of "''k''" "JNum 1" "browser_with [] unlimited"]
    gateway_never_throws [of "''k''" "JNum 1" "browser_with [(''k'', Garbage ''{oops'')] unlimited"]
    gateway_never_throws [of "''k''" "JNum 1" "browser_with [(''k'', Json (JNum 1))] unlimited"]
  by (simp add: JSON_stringify_def browser_with_def unlimited_def exhausted_def)

lemma getItem_result:
  "getItem key b = (Inr v, b') \<Longrightarrow>
     b' = b \<or> (v = JNull \<and>
       b' = b\<lparr>console_errors := console_errors b @ [''Error getting item from Local Storage:'']\<rparr>)"
  by (auto simp: getItem_def prog_defs split: option.splits if_splits sum.splits prod.splits)

lemma getItem_total: "\<exists>v b'. getItem key b = (Inr v, b')"
  by (auto simp: getItem_def prog_defs split: option.splits if_splits sum.splits prod.splits)

lemma getItem_truthy:
  assumes "getItem key b = (Inr v, b')" and "truthy v"
  shows "b' = b"
  using getItem_result [OF assms(1)] assms(2) by auto

lemma getItem_storage [simp]: "storage (snd (getItem key b)) = storage b"
  using getItem_total [of key b] getItem_result [of key b] by auto

lemma getItem_quota_ok [simp]: "quota_ok (snd (getItem key b)) = quota_ok b"
  using getItem_total [of key b] getItem_result [of key b] by auto

lemma getItem_stored:
  "map_of (storage b) key = Some t \<Longrightarrow> fst (getItem key b) = Inr (stored_value t)"
  by (auto simp: getItem_def prog_defs stored_value_def split: sum.splits)

lemma JSON_parse_json_value: "JSON_parse t = Inr v \<Longrightarrow> json_value v"
  by (cases t) (auto split: if_splits)

lemma getItem_json_value: "fst (getItem key b) = Inr v \<Longrightarrow> json_value v"
  by (auto simp: getItem_def prog_defs dest: JSON_parse_json_value
      split: option.splits if_splits sum.splits prod.splits)

lemma getItem_frame:
  "\<exists>v b'. getItem key b = (Inr v, b') \<and> storage b' = storage b \<and> quota_ok b' = quota_ok b
     \<and> notified b' = notified b \<and> json_value v"
proof -
  obtain v b' where g: "getItem key b = (Inr v, b')"
    using getItem_total by blast
  from getItem_result [OF g]
  have "storage b' = storage b \<and> quota_ok b' = quota_ok b \<and> notified b' = notified b"
    by auto
  moreover have "json_value v"
    using getItem_json_value [of key b v] g by simp
  ultimately show ?thesis using g by blast
qed

text \<open>A JSON value is written as it is: nothing is stripped and nothing throws.\<close>

lemma json_value_clean: "json_value v \<Longrightarrow> \<not> has_bigint v \<and> json_strip v = v"
proof (induction v)
  case (JArr xs)
  then have "\<forall>x \<in> set xs. \<not> has_bigint x \<and> json_strip x = x \<and> x \<noteq> JUndefined"
    by (auto simp: list_all_iff)
  then show ?case by (auto simp: list_ex_iff intro: map_idI)
next
  case (JObj kvs)
  then have *: "\<forall>kv \<in> set kvs.
      \<not> has_bigint (snd kv) \<and> json_strip (snd kv) = snd kv \<and> snd kv \<noteq> JUndefined"
    by (fastforce simp: list_all_iff snds.simps)
  then have "filter (\<lambda>kv. snd kv \<noteq> JUndefined) kvs = kvs"
    by (auto intro: filter_True)
  with * show ?case by (auto simp: list_ex_iff intro!: map_idI)
qed simp_all

lemma stringify_json: "json_value v \<Longrightarrow> JSON_stringify v = Inr (Json v)"
  using json_value_clean [of v] by (auto simp: JSON_stringify_def)

lemma stored_value_json [simp]: "json_value v \<Longrightarrow> stored_value (Json v) = v"
  by (simp add: stored_value_def)

lemma write_accepted_json:
  "json_value v \<Longrightarrow> write_accepted b key v = quota_ok b (AList.update key (Json v) (storage b))"
  by (simp add: write_accepted_def setItem_def prog_defs stringify_json)

lemma write_accepted_cong:
  "storage b' = storage b \<Longrightarrow> quota_ok b' = quota_ok b \<Longrightarrow>
   write_accepted b' key v = write_accepted b key v"
  by (simp add: write_accepted_def setItem_def prog_defs split: sum.splits)

lemma setItem_json:
  assumes "json_value v"
  shows "setItem key v b =
     (if write_accepted b key v
      then (Inr True, b\<lparr>storage := AList.update key (Json v) (storage b)\<rparr>)
      else (Inr False,
            b\<lparr>console_errors := console_errors b @ [''Error setting item to Local Storage:'']\<rparr>))"
  using assms by (simp add: write_accepted_json setItem_def prog_defs stringify_json)

lemma setItem_accepted_storage:
  "json_value v \<Longrightarrow> write_accepted b key v \<Longrightarrow>
   storage (snd (setItem key v b)) = AList.update key (Json v) (storage b)"
  by (simp add: setItem_json)

lemma setItem_frame:
  "key' \<noteq> key \<Longrightarrow> map_of (storage (snd (setItem key v b))) key' = map_of (storage b) key'"
  by (auto simp: setItem_def prog_defs update_conv' split: sum.splits)

lemma setItem_storage_cases:
  "storage (snd (setItem key v b)) = storage b
   \<or> (\<exists>t. storage (snd (setItem key v b)) = AList.update key t (storage b))"
  by (auto simp: setItem_def prog_defs split: sum.splits)

lemma setItem_fst: "\<exists>ok. fst (setItem key v b) = Inr ok"
  by (auto simp: setItem_def prog_defs split: sum.splits)

section \<open>Facts about the session\<close>

lemma strict_eq_eq: "strict_eq v w \<Longrightarrow> v = w"
  by (cases v) auto

lemma getUser_found:
  assumes "fst (getUser username b) = Inr (Some user)"
  shows "getUser username b = (Inr (Some user), b)"
proof -
  obtain v b' where g: "getItem USERS_KEY b = (Inr v, b')"
    using getItem_total by blast
  show ?thesis
  proof (cases "truthy v")
    case True
    then have "b' = b" using getItem_truthy [OF g] by simp
    with assms g True show ?thesis
      by (auto simp: getUser_def getUsers_def prog_defs split: jsval.splits sum.splits prod.splits)
  next
    case False
    with assms g show ?thesis
      by (auto simp: getUser_def getUsers_def prog_defs split: jsval.splits sum.splits prod.splits)
  qed
qed

text \<open>
  C5. When the directory has a record for the username and the password given differs
  from the one stored in that record, \<open>login\<close> returns false and leaves the browser as it
  was: the store with its session marker, and no listener notified.
\<close>

theorem login_wrong_password_fails:
  assumes "fst (getUser username b) = Inr (Some user)"
      and "value_of (get_prop user ''password'') \<noteq> JStr password"
  shows "fst (login username password b) = Inr False
       \<and> snd (login username password b) = b
       \<and> fst (getLoggedInUser (snd (login username password b))) = fst (getLoggedInUser b)"
proof -
  have "\<not> strict_eq (value_of (get_prop user ''password'')) (JStr password)"
    using assms(2) strict_eq_eq by blast
  then have "login username password b = (Inr False, b)"
    using getUser_found [OF assms(1)]
    by (simp add: login_def and_then_def ret_def)
  then show ?thesis by simp
qed

theorem login_wrong_password_fails_witness:
  "fst (getUser ''testuser'' seeded_browser) = Inr (Some testuser)
   \<and> value_of (get_prop testuser ''password'') \<noteq> JStr ''letmein''
   \<and> login ''testuser'' ''letmein'' seeded_browser = (Inr False, seeded_browser)"
proof -
  have found: "fst (getUser ''testuser'' seeded_browser) = Inr (Some testuser)"
    by (simp add: getUser_def getUsers_def getItem_def prog_defs USERS_KEY_def
        seeded_browser_def browser_with_def testuser_def username_is_def)
  have differs: "value_of (get_prop testuser ''password'') \<noteq> JStr ''letmein''"
    by (simp add: testuser_def)
  from login_wrong_password_fails [OF found differs] found differs
  show ?thesis by (simp add: prod_eq_iff)
qed

lemma getUsers_frame:
  assumes "fst (getUsers b) = Inr users"
  shows "\<exists>b0. getUsers b = (Inr users, b0) \<and> storage b0 = storage b \<and> quota_ok b0 = quota_ok b
           \<and> notified b0 = notified b \<and> json_value users"
proof -
  obtain v b' where g: "getItem USERS_KEY b = (Inr v, b')" "storage b' = storage b"
      "quota_ok b' = quota_ok b" "notified b' = notified b" "json_value v"
    using getItem_frame [of USERS_KEY b] by blast
  then show ?thesis using assms
    by (auto simp: getUsers_def and_then_def ret_def)
qed

lemma getUsers_stored:
  "map_of (storage b) USERS_KEY = Some (Json (JArr us)) \<Longrightarrow> json_value (JArr us) \<Longrightarrow>
   getUsers b = (Inr (JArr us), b)"
  using getItem_json [of b USERS_KEY "JArr us"]
  by (simp add: getUsers_def and_then_def ret_def)

lemma array_absent:
  assumes "\<forall>u \<in> set us. u \<noteq> JNull \<and> u \<noteq> JUndefined
             \<and> \<not> strict_eq (value_of (get_prop u ''username'')) name"
  shows "array_some (username_is name) us = Inr False"
    and "array_find (username_is name) us = Inr None"
  using assms by (induction us) (auto simp: username_is_def)

lemma array_find_append:
  "array_find p xs = Inr None \<Longrightarrow> array_find p (xs @ ys) = array_find p ys"
  by (induction xs) (auto split: sum.splits if_splits)

lemma array_some_append:
  "array_some p xs = Inr False \<Longrightarrow> array_some p (xs @ ys) = array_some p ys"
  by (induction xs) (auto split: sum.splits if_splits)

lemma strict_eq_username:
  "strict_eq (value_of (get_prop u ''username'')) (JStr n)
     = (get_prop u ''username'' = Some (JStr n))"
  by (cases "get_prop u ''username''"; cases "the (get_prop u ''username'')") auto

lemma not_registered:
  assumes "json_value (JArr us)" and "JNull \<notin> set us" and "\<not> registered us username"
  shows "\<forall>u \<in> set us. u \<noteq> JNull \<and> u \<noteq> JUndefined
           \<and> \<not> strict_eq (value_of (get_prop u ''username'')) (JStr username)"
  using assms by (auto simp: registered_def list_ex_iff list_all_iff strict_eq_username)

lemma json_user_record [simp]: "json_value (user_record u p)"
  by (simp add: user_record_def)

lemma json_session_marker [simp]: "json_value (session_marker u)"
  by (simp add: session_marker_def)

lemma json_directory: "json_value (JArr us) \<Longrightarrow> json_value (JArr (us @ [user_record u p]))"
  by simp

lemma saveUser_new:
  assumes dir: "fst (getUsers b) = Inr (JArr us)"
      and wf: "JNull \<notin> set us"
      and fresh: "\<not> registered us username"
      and accepted: "write_accepted b USERS_KEY (JArr (us @ [user_record username password]))"
  shows "saveUser (user_record username password) b =
           (Inr True, (snd (getUsers b))\<lparr>storage :=
              AList.update USERS_KEY (Json (JArr (us @ [user_record username password])))
                (storage b)\<rparr>)"
proof -
  obtain b0 where g: "getUsers b = (Inr (JArr us), b0)" "storage b0 = storage b"
      "quota_ok b0 = quota_ok b" "json_value (JArr us)"
    using getUsers_frame [OF dir] by blast
  have none: "array_some (username_is (JStr username)) us = Inr False"
    using array_absent(1) [OF not_registered [OF g(4) wf fresh]] .
  have acc: "write_accepted b0 USERS_KEY (JArr (us @ [user_record username password]))"
    using accepted write_accepted_cong [OF g(2,3)] by simp
  have w: "setItem USERS_KEY (JArr (us @ [user_record username password])) b0 =
      (Inr True, b0\<lparr>storage :=
         AList.update USERS_KEY (Json (JArr (us @ [user_record username password]))) (storage b0)\<rparr>)"
    using acc setItem_json [OF json_directory [OF g(4)]] by simp
  have u: "value_of (get_prop (user_record username password) ''username'') = JStr username"
    by (simp add: user_record_def)
  show ?thesis
    using g none w u
    by (simp add: saveUser_def saveUsers_def and_then_def ret_def lift_result_def)
qed

lemma getUser_stored:
  assumes stored: "map_of (storage b) USERS_KEY
                     = Some (Json (JArr (us @ [user_record username password])))"
      and json: "json_value (JArr us)"
      and none: "\<forall>u \<in> set us. u \<noteq> JNull \<and> u \<noteq> JUndefined
                   \<and> \<not> strict_eq (value_of (get_prop u ''username'')) (JStr username)"
  shows "getUser username b = (Inr (Some (user_record username password)), b)"
    and "saveUser (user_record username password') b = (Inr False, b)"
proof -
  have g: "getUsers b = (Inr (JArr (us @ [user_record username password])), b)"
    using getUsers_stored [OF stored] json by simp
  have f: "array_find (username_is (JStr username)) (us @ [user_record username password])
             = Inr (Some (user_record username password))"
    using array_find_append [OF array_absent(2) [OF none]]
    by (simp add: username_is_def user_record_def)
  have s: "array_some (username_is (JStr username)) (us @ [user_record username password])
             = Inr True"
    using array_some_append [OF array_absent(1) [OF none]]
    by (simp add: username_is_def user_record_def)
  show "getUser username b = (Inr (Some (user_record username password)), b)"
    using g f by (simp add: getUser_def and_then_def lift_result_def)
  show "saveUser (user_record username password') b = (Inr False, b)"
    using g s by (simp add: saveUser_def and_then_def lift_result_def ret_def user_record_def)
qed

lemma login_stored:
  assumes stored: "map_of (storage b) USERS_KEY
                     = Some (Json (JArr (us @ [user_record username password])))"
      and json: "json_value (JArr us)"
      and none: "\<forall>u \<in> set us. u \<noteq> JNull \<and> u \<noteq> JUndefined
                   \<and> \<not> strict_eq (value_of (get_prop u ''username'')) (JStr username)"
  shows "login username password b =
           (Inr True, (snd (setItem CURRENT_USER_KEY (session_marker username) b))
              \<lparr>notified := notified b @ [session_marker username]\<rparr>)"
proof -
  obtain ok where ok: "fst (setItem CURRENT_USER_KEY (session_marker username) b) = Inr ok"
    using setItem_fst by blast
  have n: "notified (snd (setItem CURRENT_USER_KEY (session_marker username) b)) = notified b"
    by (simp add: setItem_json)
  show ?thesis
    using getUser_stored(1) [OF stored json none] ok n
    by (cases "setItem CURRENT_USER_KEY (session_marker username) b")
       (simp add: login_def and_then_def ret_def notifyAuthChange_def user_record_def
          session_marker_def)
qed

lemma getUsers_snd: "snd (getUsers b) = snd (getItem USERS_KEY b)"
  using getItem_total [of USERS_KEY b] by (auto simp: getUsers_def and_then_def ret_def)

text \<open>
  C4, as stated, fails. The username is not in the directory, the browser refuses the
  write of the new directory, \<open>saveUser\<close> ignores the gateway's result and reports
  success, and the login that follows does not find the user: \<open>signup\<close> returns false.
\<close>

theorem signup_fails_when_store_is_full:
  "fst (getUsers private_mode_browser) = Inr (JArr [testuser])
   \<and> \<not> registered [testuser] ''alice''
   \<and> fst (signup ''alice'' ''secret'' private_mode_browser) = Inr False
   \<and> storage (snd (signup ''alice'' ''secret'' private_mode_browser))
       = storage private_mode_browser"
  by (simp add: private_mode_browser_def browser_with_def exhausted_def testuser_def registered_def
      signup_def saveUser_def saveUsers_def getUsers_def getUser_def login_def setItem_def
      getItem_def USERS_KEY_def prog_defs username_is_def JSON_stringify_def)

text \<open>
  C4, amended. Let the stored directory be absent or a list without null entries that
  has no record of the username, and let the browser accept the write of the extended
  directory. Then \<open>signup\<close> returns true; the directory read back afterwards is the old
  one with the new record at its end; the listeners are notified with the user, and the
  session marker is persisted when the browser accepts that write too; a login with the
  same credentials then returns true; a second signup with that username, whatever the
  password, returns false and leaves the browser's state, the stored directory with
  it, as it was.
\<close>

theorem signup_then_login:
  assumes dir: "fst (getUsers b) = Inr (JArr us)"
      and wf: "JNull \<notin> set us"
      and fresh: "\<not> registered us username"
      and accepted: "write_accepted b USERS_KEY (JArr (us @ [user_record username password]))"
  shows "fst (signup username password b) = Inr True
       \<and> fst (getUsers (snd (signup username password b)))
           = Inr (JArr (us @ [user_record username password]))
       \<and> notified (snd (signup username password b)) = notified b @ [session_marker username]
       \<and> (write_accepted (snd (saveUser (user_record username password) b)) CURRENT_USER_KEY
             (session_marker username) \<longrightarrow>
           fst (getLoggedInUser (snd (signup username password b))) = Inr (session_marker username))
       \<and> fst (login username password (snd (signup username password b))) = Inr True
       \<and> signup username password' (snd (signup username password b))
           = (Inr False, snd (signup username password b))"
proof -
  let ?new = "user_record username password"
  let ?dir = "JArr (us @ [?new])"
  let ?m = "session_marker username"
  obtain b0 where g: "getUsers b = (Inr (JArr us), b0)" "storage b0 = storage b"
      "quota_ok b0 = quota_ok b" "notified b0 = notified b" "json_value (JArr us)"
    using getUsers_frame [OF dir] by blast
  define b1 where "b1 = b0\<lparr>storage := AList.update USERS_KEY (Json ?dir) (storage b)\<rparr>"
  have save: "saveUser ?new b = (Inr True, b1)"
    using saveUser_new [OF dir wf fresh accepted] g(1) by (simp add: b1_def)
  note none = not_registered [OF g(5) wf fresh]
  have stored1: "map_of (storage b1) USERS_KEY = Some (Json ?dir)"
    by (simp add: b1_def update_conv')
  define b2 where "b2 = snd (setItem CURRENT_USER_KEY ?m b1)"
  define b3 where "b3 = b2\<lparr>notified := notified b1 @ [?m]\<rparr>"
  have log1: "login username password b1 = (Inr True, b3)"
    using login_stored [OF stored1 g(5) none] by (simp add: b2_def b3_def)
  have run: "signup username password b = (Inr True, b3)"
    using save log1 by (simp add: signup_def and_then_def user_record_def)
  have keys: "USERS_KEY \<noteq> CURRENT_USER_KEY"
    by (simp add: USERS_KEY_def CURRENT_USER_KEY_def)
  have stored3: "map_of (storage b3) USERS_KEY = Some (Json ?dir)"
    using setItem_frame [OF keys, of ?m b1] stored1 by (simp add: b3_def b2_def)
  have n3: "notified b3 = notified b @ [?m]"
    by (simp add: b3_def b1_def g(4))
  have users3: "fst (getUsers b3) = Inr ?dir"
    using getUsers_stored [OF stored3] g(5) by simp
  have marker: "write_accepted b1 CURRENT_USER_KEY ?m \<longrightarrow> fst (getLoggedInUser b3) = Inr ?m"
  proof
    assume "write_accepted b1 CURRENT_USER_KEY ?m"
    then have "map_of (storage b3) CURRENT_USER_KEY = Some (Json ?m)"
      by (simp add: b3_def b2_def setItem_accepted_storage update_conv')
    then show "fst (getLoggedInUser b3) = Inr ?m"
      using getItem_json [of b3 CURRENT_USER_KEY ?m] by (simp add: getLoggedInUser_def)
  qed
  have again: "fst (login username password b3) = Inr True"
    using login_stored [OF stored3 g(5) none] by simp
  have taken: "signup username password' b3 = (Inr False, b3)"
    using getUser_stored(2) [OF stored3 g(5) none, of password']
    by (simp add: signup_def and_then_def ret_def user_record_def)
  from run users3 n3 marker again taken save show ?thesis by simp
qed

theorem signup_then_login_witness:
  "fst (getUsers seeded_browser) = Inr (JArr [testuser])
   \<and> JNull \<notin> set [testuser]
   \<and> \<not> registered [testuser] ''alice''
   \<and> write_accepted seeded_browser USERS_KEY (JArr ([testuser] @ [user_record ''alice'' ''secret'']))
   \<and> fst (signup ''alice'' ''secret'' seeded_browser) = Inr True
   \<and> fst (getUsers (snd (signup ''alice'' ''secret'' seeded_browser)))
       = Inr (JArr [testuser, user_record ''alice'' ''secret''])
   \<and> fst (getLoggedInUser (snd (signup ''alice'' ''secret'' seeded_browser)))
       = Inr (session_marker ''alice'')
   \<and> fst (login ''alice'' ''secret'' (snd (signup ''alice'' ''secret'' seeded_browser))) = Inr True
   \<and> fst (signup ''alice'' ''other'' (snd (signup ''alice'' ''secret'' seeded_browser)))
       = Inr False"
proof -
  have dir: "fst (getUsers seeded_browser) = Inr (JArr [testuser])"
    by (simp add: getUsers_def getItem_def prog_defs USERS_KEY_def seeded_browser_def
        browser_with_def testuser_def)
  have wf: "JNull \<notin> set [testuser]" by (simp add: testuser_def)
  have fresh: "\<not> registered [testuser] ''alice''" by (simp add: registered_def testuser_def)
  have accepted: "write_accepted seeded_browser USERS_KEY
      (JArr ([testuser] @ [user_record ''alice'' ''secret'']))"
    by (simp add: write_accepted_json testuser_def seeded_browser_def browser_with_def
        unlimited_def)
  have marker: "write_accepted (snd (saveUser (user_record ''alice'' ''secret'') seeded_browser))
      CURRENT_USER_KEY (session_marker ''alice'')"
    unfolding saveUser_new [OF dir wf fresh accepted]
    by (simp add: write_accepted_json getUsers_snd seeded_browser_def browser_with_def
        unlimited_def)
  from signup_then_login [OF dir wf fresh accepted, of "''other''"] marker dir wf fresh accepted
  show ?thesis by simp
qed

section \<open>Facts about the asset editors\<close>

lemma save_asset_no_campaign:
  assumes "fst (getActiveCampaign b) = Inr v" and "\<not> truthy v"
  shows "fst (save_asset nowIso slot data b) = Inr ()
       \<and> storage (snd (save_asset nowIso slot data b)) = storage b
       \<and> console_errors (snd (save_asset nowIso slot data b))
           = console_errors (snd (getActiveCampaign b)) @ [''No active campaign to save to.'']"
proof -
  obtain b' where g: "getActiveCampaign b = (Inr v, b')"
    using assms(1) by (cases "getActiveCampaign b") auto
  have s: "storage b' = storage b"
    using getItem_storage [of ACTIVE_CAMPAIGN_KEY b] g
    by (simp add: getActiveCampaign_def del: getItem_storage)
  show ?thesis using g s assms(2)
    by (simp add: save_asset_def and_then_def console_error_def)
qed

text \<open>
  C6. When \<open>getActiveCampaign\<close> returns nothing truthy (no pointer stored, or one that
  does not parse), each editor's save operation returns after logging
  \<^verbatim>\<open>No active campaign to save to.\<close> and the key-value store is what it was before.
\<close>

theorem save_without_active_campaign:
  assumes "fst (getActiveCampaign b) = Inr v" and "\<not> truthy v"
  shows "fst (saveBanner nowIso ed b) = Inr ()
       \<and> storage (snd (saveBanner nowIso ed b)) = storage b
       \<and> last (console_errors (snd (saveBanner nowIso ed b))) = ''No active campaign to save to.''
       \<and> fst (marketing_savePage nowIso ed b) = Inr ()
       \<and> storage (snd (marketing_savePage nowIso ed b)) = storage b
       \<and> last (console_errors (snd (marketing_savePage nowIso ed b)))
           = ''No active campaign to save to.''
       \<and> fst (landing_savePage nowIso ed b) = Inr ()
       \<and> storage (snd (landing_savePage nowIso ed b)) = storage b
       \<and> last (console_errors (snd (landing_savePage nowIso ed b)))
           = ''No active campaign to save to.''"
  using save_asset_no_campaign [OF assms]
  by (simp add: saveBanner_def marketing_savePage_def landing_savePage_def)

theorem save_without_active_campaign_witness:
  "fst (getActiveCampaign seeded_browser) = Inr JNull
   \<and> \<not> truthy JNull
   \<and> storage (snd (saveBanner ''2024-05-01T10:00:00.000Z'' blank_editor seeded_browser))
       = storage seeded_browser
   \<and> storage (snd (marketing_savePage ''2024-05-01T10:00:00.000Z'' blank_editor seeded_browser))
       = storage seeded_browser
   \<and> storage (snd (landing_savePage ''2024-05-01T10:00:00.000Z'' blank_editor seeded_browser))
       = storage seeded_browser
   \<and> console_errors (snd (landing_savePage ''2024-05-01T10:00:00.000Z'' blank_editor seeded_browser))
       = [''No active campaign to save to.'']"
proof -
  have none: "fst (getActiveCampaign seeded_browser) = Inr JNull"
    by (simp add: getActiveCampaign_def getItem_def prog_defs ACTIVE_CAMPAIGN_KEY_def
        seeded_browser_def browser_with_def)
  have falsy: "\<not> truthy JNull" by simp
  have logged: "console_errors
      (snd (landing_savePage ''2024-05-01T10:00:00.000Z'' blank_editor seeded_browser))
       = [''No active campaign to save to.'']"
    by (simp add: landing_savePage_def save_asset_def getActiveCampaign_def getItem_def prog_defs
        ACTIVE_CAMPAIGN_KEY_def seeded_browser_def browser_with_def)
  from save_without_active_campaign [OF none falsy] none logged
  show ?thesis by simp
qed

lemma inputs_set_if_present:
  "inputs (set_if_present f v ed) g =
     (if g = f then map_option (\<lambda>_. v) (inputs ed f) else inputs ed g)"
  by (cases "inputs ed f") (simp_all add: set_if_present_def)

lemma inputs_restore:
  "inputs (restore f c ed) g = (if g = f \<and> c \<noteq> [] then Some c else inputs ed g)"
  by (simp add: restore_def)

lemma value_or_empty:
  "value_or ed f [] = (case inputs ed f of None \<Rightarrow> [] | Some v \<Rightarrow> v)"
  by (simp add: value_or_def split: option.splits)

lemma landing_kept:
  assumes "map_of landing_templatesDefaults templateId = Some defaults"
  shows "inputs (landing_applyTemplate templateId ed) ''titleInput''
           = map_option (\<lambda>v. if v = [] then preset defaults ''title'' else v)
               (inputs ed ''titleInput'')"
    and "inputs (landing_applyTemplate templateId ed) ''paragraphInput''
           = map_option (\<lambda>v. if v = [] then preset defaults ''paragraph'' else v)
               (inputs ed ''paragraphInput'')"
    and "inputs (landing_applyTemplate templateId ed) ''imageUrlInput''
           = map_option (\<lambda>v. if v = [] then preset defaults ''imageUrl'' else v)
               (inputs ed ''imageUrlInput'')"
  using assms
  by (simp_all add: landing_applyTemplate_def Let_def inputs_set_if_present inputs_restore
      value_or_empty split: option.splits)

lemma landing_overwritten:
  assumes "map_of landing_templatesDefaults templateId = Some defaults"
  shows "inputs (landing_applyTemplate templateId ed) ''ctaTextInput''
           = map_option (\<lambda>v. preset defaults ''ctaText'') (inputs ed ''ctaTextInput'')"
    and "inputs (landing_applyTemplate templateId ed) ''ctaLinkInput''
           = map_option (\<lambda>v. preset defaults ''ctaLink'') (inputs ed ''ctaLinkInput'')"
    and "inputs (landing_applyTemplate templateId ed) ''bgColorInput''
           = map_option (\<lambda>v. preset defaults ''bgColor'') (inputs ed ''bgColorInput'')"
    and "inputs (landing_applyTemplate templateId ed) ''textColorInput''
           = map_option (\<lambda>v. preset defaults ''textColor'') (inputs ed ''textColorInput'')"
  using assms
  by (simp_all add: landing_applyTemplate_def Let_def inputs_set_if_present inputs_restore)

lemma marketing_kept:
  assumes "map_of marketing_templatesDefaults templateId = Some defaults"
  shows "inputs (marketing_applyTemplate templateId ed) ''titleInput''
           = map_option (\<lambda>v. if v = [] then preset defaults ''title'' else v)
               (inputs ed ''titleInput'')"
    and "inputs (marketing_applyTemplate templateId ed) ''paragraph1Input''
           = map_option (\<lambda>v. if v = [] then preset defaults ''paragraph1'' else v)
               (inputs ed ''paragraph1Input'')"
    and "inputs (marketing_applyTemplate templateId ed) ''imageUrlInput''
           = map_option (\<lambda>v. if v = [] then preset defaults ''imageUrl'' else v)
               (inputs ed ''imageUrlInput'')"
  using assms
  by (simp_all add: marketing_applyTemplate_def Let_def inputs_set_if_present inputs_restore
      value_or_empty split: option.splits)

lemma marketing_overwritten:
  assumes "map_of marketing_templatesDefaults templateId = Some defaults"
  shows "inputs (marketing_applyTemplate templateId ed) ''bgColorInput''
           = map_option (\<lambda>v. preset defaults ''bgColor'') (inputs ed ''bgColorInput'')"
    and "inputs (marketing_applyTemplate templateId ed) ''textColorInput''
           = map_option (\<lambda>v. preset defaults ''textColor'') (inputs ed ''textColorInput'')"
  using assms
  by (simp_all add: marketing_applyTemplate_def Let_def inputs_set_if_present inputs_restore)

text \<open>
  C3, as stated, fails. The landing form has text in every field; switching to
  \<^verbatim>\<open>template2\<close> keeps the title, paragraph and image URL and overwrites the call to
  action and both colours, none of which was empty.
\<close>

theorem applyTemplate_overwrites_typed_colour:
  "inputs typed_landing_form ''titleInput'' = Some ''Spring Sale''
   \<and> inputs typed_landing_form ''paragraphInput'' = Some ''Everything must go.''
   \<and> inputs typed_landing_form ''imageUrlInput'' = Some ''https://example.com/spring.png''
   \<and> inputs typed_landing_form ''bgColorInput'' = Some ''#123456''
   \<and> inputs typed_landing_form ''ctaTextInput'' = Some ''Shop now''
   \<and> inputs (landing_applyTemplate ''template2'' typed_landing_form) ''titleInput''
       = Some ''Spring Sale''
   \<and> inputs (landing_applyTemplate ''template2'' typed_landing_form) ''bgColorInput''
       = Some ''#fce4ec''
   \<and> inputs (landing_applyTemplate ''template2'' typed_landing_form) ''ctaTextInput''
       = Some ''Claim Your Discount''"
  by (simp add: typed_landing_form_def landing_applyTemplate_def Let_def inputs_set_if_present
      inputs_restore value_or_empty landing_templatesDefaults_def preset_def)

text \<open>
  C3, amended. Applying a template of the catalog keeps the title, the paragraph and the
  image URL when they are not empty and gives them the template's preset when they
  are; every other field with a preset (call-to-action text and link of the landing
  page, background and text colour of both editors) receives the preset whether or not
  it was empty. A field whose element the page lacks stays absent.
\<close>

theorem applyTemplate_keeps_typed_text:
  assumes "map_of landing_templatesDefaults landingId = Some landing"
      and "map_of marketing_templatesDefaults marketingId = Some marketing"
  shows "inputs (landing_applyTemplate landingId ed) ''titleInput''
           = map_option (\<lambda>v. if v = [] then preset landing ''title'' else v)
               (inputs ed ''titleInput'')
       \<and> inputs (landing_applyTemplate landingId ed) ''paragraphInput''
           = map_option (\<lambda>v. if v = [] then preset landing ''paragraph'' else v)
               (inputs ed ''paragraphInput'')
       \<and> inputs (landing_applyTemplate landingId ed) ''imageUrlInput''
           = map_option (\<lambda>v. if v = [] then preset landing ''imageUrl'' else v)
               (inputs ed ''imageUrlInput'')
       \<and> inputs (landing_applyTemplate landingId ed) ''ctaTextInput''
           = map_option (\<lambda>v. preset landing ''ctaText'') (inputs ed ''ctaTextInput'')
       \<and> inputs (landing_applyTemplate landingId ed) ''ctaLinkInput''
           = map_option (\<lambda>v. preset landing ''ctaLink'') (inputs ed ''ctaLinkInput'')
       \<and> inputs (landing_applyTemplate landingId ed) ''bgColorInput''
           = map_option (\<lambda>v. preset landing ''bgColor'') (inputs ed ''bgColorInput'')
       \<and> inputs (landing_applyTemplate landingId ed) ''textColorInput''
           = map_option (\<lambda>v. preset landing ''textColor'') (inputs ed ''textColorInput'')
       \<and> inputs (marketing_applyTemplate marketingId ed') ''titleInput''
           = map_option (\<lambda>v. if v = [] then preset marketing ''title'' else v)
               (inputs ed' ''titleInput'')
       \<and> inputs (marketing_applyTemplate marketingId ed') ''paragraph1Input''
           = map_option (\<lambda>v. if v = [] then preset marketing ''paragraph1'' else v)
               (inputs ed' ''paragraph1Input'')
       \<and> inputs (marketing_applyTemplate marketingId ed') ''imageUrlInput''
           = map_option (\<lambda>v. if v = [] then preset marketing ''imageUrl'' else v)
               (inputs ed' ''imageUrlInput'')
       \<and> inputs (marketing_applyTemplate marketingId ed') ''bgColorInput''
           = map_option (\<lambda>v. preset marketing ''bgColor'') (inputs ed' ''bgColorInput'')
       \<and> inputs (marketing_applyTemplate marketingId ed') ''textColorInput''
           = map_option (\<lambda>v. preset marketing ''textColor'') (inputs ed' ''textColorInput'')"
proof -
  note l = landing_kept [OF assms(1), of ed] landing_overwritten [OF assms(1), of ed]
  note m = marketing_kept [OF assms(2), of ed'] marketing_overwritten [OF assms(2), of ed']
  from l m show ?thesis by (intro conjI)
qed

theorem applyTemplate_keeps_typed_text_witness:
  "map_of landing_templatesDefaults ''template2'' \<noteq> None
   \<and> map_of marketing_templatesDefaults ''template3'' \<noteq> None
   \<and> inputs (landing_applyTemplate ''template2'' typed_landing_form) ''paragraphInput''
       = Some ''Everything must go.''
   \<and> inputs (landing_applyTemplate ''template2'' typed_landing_form) ''textColorInput''
       = Some ''#4a148c''
   \<and> inputs (marketing_applyTemplate ''template3'' typed_marketing_form) ''titleInput''
       = Some ''Spring Sale''
   \<and> inputs (marketing_applyTemplate ''template3'' typed_marketing_form) ''paragraph1Input''
       = Some (''We'' @ [CHR 0x27] @ ''ve got exciting news coming soon. Stay tuned for more information.'')
   \<and> inputs (marketing_applyTemplate ''template3'' typed_marketing_form) ''bgColorInput''
       = Some ''#fffde7''"
proof -
  have l: "map_of landing_templatesDefaults ''template2''
             = Some (the (map_of landing_templatesDefaults ''template2''))"
    by (simp add: landing_templatesDefaults_def)
  have m: "map_of marketing_templatesDefaults ''template3''
             = Some (the (map_of marketing_templatesDefaults ''template3''))"
    by (simp add: marketing_templatesDefaults_def)
  from applyTemplate_keeps_typed_text [OF l m, of typed_landing_form typed_marketing_form]
  show ?thesis
    by (simp add: landing_templatesDefaults_def marketing_templatesDefaults_def preset_def
        typed_landing_form_def typed_marketing_form_def)
qed

section \<open>Facts about the router\<close>

lemma hide_each_ok:
  "None \<notin> set es \<Longrightarrow>
   hide_each es b = (Inr (), b\<lparr>hidden := (\<lambda>e. Some e \<in> set es \<or> hidden b e)\<rparr>)"
proof (induction es arbitrary: b)
  case Nil
  then show ?case by simp
next
  case (Cons x es)
  then obtain e where x: "x = Some e" by (cases x) auto
  from Cons have "None \<notin> set es" by simp
  from Cons.IH [OF this] x show ?case
    by (auto simp: and_then_def classList_add_hidden_def fun_eq_iff
        intro!: arg_cong2 [where f = "\<lambda>h b. b\<lparr>hidden := h\<rparr>"])
qed

text \<open>
  Whatever was visible before, a request for a screen id the registry does not have
  leaves every registered screen hidden: the screens are hidden before the id is
  looked up.
\<close>

lemma showScreen_unregistered:
  assumes "map_of (screens nav) screenId = None" and "None \<notin> set (map snd (screens nav))"
  shows "showScreen nav screenId b =
     (Inr (), b\<lparr>hidden := (\<lambda>e. Some e \<in> set (map snd (screens nav)) \<or> hidden b e),
               console_errors := console_errors b @
                 [''Screen with ID '' @ [CHR 0x22] @ screenId @ [CHR 0x22] @ '' not registered.'']\<rparr>)"
  using assms hide_each_ok [OF assms(2), of b]
  by (simp add: showScreen_def hideAllScreens_def and_then_def console_error_def)

lemma showScreen_unregistered_visible:
  assumes "map_of (screens nav) screenId = None" and "None \<notin> set (map snd (screens nav))"
  shows "visible_screens nav (snd (showScreen nav screenId b)) = []"
  using assms(2)
  by (force simp add: showScreen_unregistered [OF assms] visible_screens_def filter_empty_conv
      split: option.splits)

text \<open>
  C2. The claim asks that a request for an unregistered screen leave the one visible
  screen visible. Here the login screen is the only visible screen, a user is logged in
  and the banner editor is not registered: \<open>goToBannerEditor\<close> logs the error and
  returns with no screen visible at all.
\<close>

theorem unregistered_screen_hides_all:
  "visible_screens partial_registry on_login_page = [''login-screen'']
   \<and> map_of (screens partial_registry) ''banner-editor-screen'' = None
   \<and> fst (goToBannerEditor partial_registry on_login_page) = Inr ()
   \<and> visible_screens partial_registry (snd (goToBannerEditor partial_registry on_login_page)) = []
   \<and> console_errors (snd (goToBannerEditor partial_registry on_login_page))
       = [''Screen with ID '' @ [CHR 0x22] @ ''banner-editor-screen'' @ [CHR 0x22]
          @ '' not registered.'']"
  by (simp add: visible_screens_def partial_registry_def on_login_page_def browser_with_def
      goToBannerEditor_def getLoggedInUser_def getItem_def CURRENT_USER_KEY_def prog_defs
      showScreen_def hideAllScreens_def classList_add_hidden_def)

lemma goTo_without_session:
  assumes "map_of (storage b) CURRENT_USER_KEY = None"
  shows "goToDashboard nav b = goToLogin nav b"
    and "goToBannerEditor nav b = goToLogin nav b"
    and "goToMarketingPageEditor nav b = goToLogin nav b"
    and "goToLandingPageEditor nav b = goToLogin nav b"
  using getItem_missing [OF assms]
  by (simp_all add: goToDashboard_def goToBannerEditor_def goToMarketingPageEditor_def
      goToLandingPageEditor_def getLoggedInUser_def and_then_def)

lemma goToLogin_registered:
  assumes elements: "None \<notin> set (map snd (screens nav))"
      and login: "map_of (screens nav) ''login-screen'' = Some (Some l)"
      and shell: "map_of (screens nav) ''main-app-content'' = Some (Some m)"
  shows "goToLogin nav b =
           (Inr (), b\<lparr>hidden := (\<lambda>e. if e = m then True else if e = l then False
                                     else Some e \<in> set (map snd (screens nav)) \<or> hidden b e)\<rparr>)"
proof -
  have "(\<lambda>e. Some e \<in> set (map snd (screens nav)) \<or> hidden b e)(l := False, m := True)
      = (\<lambda>e. if e = m then True else if e = l then False
              else Some e \<in> set (map snd (screens nav)) \<or> hidden b e)"
    by (rule ext) simp
  then show ?thesis
    using hide_each_ok [OF elements, of b] login shell
    by (simp add: goToLogin_def showScreen_def hideAllScreens_def and_then_def ret_def
        classList_add_hidden_def classList_remove_hidden_def main_app_content_def
        render_hook_def)
qed

lemma filter_unique:
  assumes "distinct (map f xs)" and "x \<in> set xs"
  shows "filter (\<lambda>y. f y = f x) xs = [x]"
  using assms
proof (induction xs)
  case Nil
  then show ?case by simp
next
  case (Cons a xs)
  show ?case
  proof (cases "a = x")
    case True
    then have "f x \<notin> f ` set xs" using Cons.prems(1) by simp
    then have "\<forall>y \<in> set xs. f y \<noteq> f x" by (metis imageI)
    then have "filter (\<lambda>y. f y = f x) xs = []" by (simp add: filter_empty_conv)
    with True show ?thesis by simp
  next
    case False
    then have x: "x \<in> set xs" using Cons.prems(2) by simp
    have "f a \<notin> f ` set xs" using Cons.prems(1) by simp
    then have "f a \<noteq> f x" using x by (metis imageI)
    then show ?thesis using Cons x by simp
  qed
qed

lemma goToLogin_visible:
  assumes elements: "None \<notin> set (map snd (screens nav))"
      and distinct_elements: "distinct (map snd (screens nav))"
      and login: "map_of (screens nav) ''login-screen'' = Some (Some l)"
      and shell: "map_of (screens nav) ''main-app-content'' = Some (Some m)"
  shows "visible_screens nav (snd (goToLogin nav b)) = [''login-screen'']"
proof -
  have entry: "(''login-screen'', Some l) \<in> set (screens nav)"
    using login by (rule map_of_SomeD)
  have shell_entry: "(''main-app-content'', Some m) \<in> set (screens nav)"
    using shell by (rule map_of_SomeD)
  have inj: "inj_on snd (set (screens nav))"
    using distinct_elements by (simp add: distinct_map)
  have lm: "l \<noteq> m"
  proof
    assume "l = m"
    then have "snd (''login-screen'', Some l) = snd (''main-app-content'', Some m)" by simp
    from inj_onD [OF inj this entry shell_entry] show False by simp
  qed
  have shown: "(case snd s of None \<Rightarrow> False
                | Some e \<Rightarrow> \<not> hidden (snd (goToLogin nav b)) e) = (snd s = Some l)"
    if "s \<in> set (screens nav)" for s
  proof (cases "snd s")
    case None
    with that elements show ?thesis by (metis image_eqI set_map)
  next
    case (Some e)
    with that have "Some e \<in> set (map snd (screens nav))" by (metis image_eqI set_map)
    with Some lm show ?thesis
      by (simp add: goToLogin_registered [OF elements login shell])
  qed
  have "filter (\<lambda>s. case snd s of None \<Rightarrow> False
                     | Some e \<Rightarrow> \<not> hidden (snd (goToLogin nav b)) e) (screens nav)
        = filter (\<lambda>s. snd s = snd (''login-screen'', Some l)) (screens nav)"
    using shown by (intro filter_cong refl) simp
  also have "\<dots> = [(''login-screen'', Some l)]"
    using filter_unique [OF distinct_elements entry] .
  finally show ?thesis by (simp add: visible_screens_def)
qed

text \<open>
  C7. With no session marker in the store, each of the four navigation requests to an
  authenticated screen does exactly what \<open>goToLogin\<close> does. When the registry holds
  distinct elements, the login screen and the authenticated shell among them, the
  request returns normally and leaves the login screen as the only visible screen: the
  dashboard, the editors and the shell are hidden, and no render hook has run.
\<close>

theorem navigation_requires_session:
  assumes no_marker: "map_of (storage b) CURRENT_USER_KEY = None"
      and elements: "None \<notin> set (map snd (screens nav))"
      and distinct_elements: "distinct (map snd (screens nav))"
      and login: "map_of (screens nav) ''login-screen'' = Some (Some l)"
      and shell: "map_of (screens nav) ''main-app-content'' = Some (Some m)"
  shows "goToDashboard nav b = goToLogin nav b
       \<and> goToBannerEditor nav b = goToLogin nav b
       \<and> goToMarketingPageEditor nav b = goToLogin nav b
       \<and> goToLandingPageEditor nav b = goToLogin nav b
       \<and> fst (goToLogin nav b) = Inr ()
       \<and> visible_screens nav (snd (goToDashboard nav b)) = [''login-screen'']
       \<and> visible_screens nav (snd (goToBannerEditor nav b)) = [''login-screen'']
       \<and> visible_screens nav (snd (goToMarketingPageEditor nav b)) = [''login-screen'']
       \<and> visible_screens nav (snd (goToLandingPageEditor nav b)) = [''login-screen'']
       \<and> rendered (snd (goToLogin nav b)) = rendered b"
proof -
  note same = goTo_without_session [OF no_marker, of nav]
  note shown = goToLogin_visible [OF elements distinct_elements login shell, of b]
  have returns: "fst (goToLogin nav b) = Inr ()"
    and hooks: "rendered (snd (goToLogin nav b)) = rendered b"
    by (simp_all add: goToLogin_registered [OF elements login shell])
  from same shown returns hooks show ?thesis by simp
qed

theorem navigation_requires_session_witness:
  "map_of (storage stale_dashboard) CURRENT_USER_KEY = None
   \<and> screens wired_router
       = controller_screens (Some 1) (Some 2) (Some 3) (Some 4) (Some 5) (Some 6)
   \<and> visible_screens wired_router stale_dashboard = [''main-app-content'', ''dashboard-screen'']
   \<and> visible_screens wired_router (snd (goToDashboard wired_router stale_dashboard))
       = [''login-screen'']
   \<and> visible_screens wired_router (snd (goToLandingPageEditor wired_router stale_dashboard))
       = [''login-screen'']"
proof -
  have no_marker: "map_of (storage stale_dashboard) CURRENT_USER_KEY = None"
    by (simp add: stale_dashboard_def seeded_browser_def browser_with_def CURRENT_USER_KEY_def)
  have wired: "screens wired_router
       = controller_screens (Some 1) (Some 2) (Some 3) (Some 4) (Some 5) (Some 6)"
    by (simp add: wired_router_def)
  have elements: "None \<notin> set (map snd (screens wired_router))"
    and distinct_elements: "distinct (map snd (screens wired_router))"
    and login: "map_of (screens wired_router) ''login-screen'' = Some (Some 1)"
    and shell: "map_of (screens wired_router) ''main-app-content'' = Some (Some 2)"
    by (simp_all add: wired_router_def controller_screens_def)
  have before: "visible_screens wired_router stale_dashboard
       = [''main-app-content'', ''dashboard-screen'']"
    by (simp add: visible_screens_def wired_router_def controller_screens_def
        stale_dashboard_def seeded_browser_def browser_with_def)
  note guarded =
    navigation_requires_session [OF no_marker elements distinct_elements login shell]
  from guarded have dashboard:
    "visible_screens wired_router (snd (goToDashboard wired_router stale_dashboard))
       = [''login-screen'']"
    by (elim conjE)
  from guarded have landing:
    "visible_screens wired_router (snd (goToLandingPageEditor wired_router stale_dashboard))
       = [''login-screen'']"
    by (elim conjE)
  from no_marker wired before dashboard landing
  show ?thesis by (intro conjI)
qed

section \<open>Facts about the campaign store\<close>

lemma json_value_spread:
  "json_value c \<Longrightarrow> list_all (\<lambda>kv. json_value (snd kv)) (spread_props c)"
  by (cases c) (auto simp: list_all_iff)

lemma json_value_update:
  "list_all (\<lambda>kv. json_value (snd kv)) kvs \<Longrightarrow> json_value v \<Longrightarrow>
   list_all (\<lambda>kv. json_value (snd kv)) (AList.update k v kvs)"
  by (induction kvs) auto

lemma setActiveCampaign_eq:
  "setActiveCampaign nowIso c b =
     (Inr (), snd (setItem ACTIVE_CAMPAIGN_KEY
        (JObj (AList.update ''lastUpdated'' (JStr nowIso) (spread_props c))) b))"
  using setItem_fst [of ACTIVE_CAMPAIGN_KEY
      "JObj (AList.update ''lastUpdated'' (JStr nowIso) (spread_props c))" b]
  by (auto simp: setActiveCampaign_def and_then_def ret_def Let_def split: prod.splits sum.splits)

text \<open>
  C9, as stated, fails. The browser refuses the write, the gateway returns false,
  \<open>setActiveCampaign\<close> does not look at the result: no copy of the record is under the
  pointer key afterwards.
\<close>

theorem setActiveCampaign_unwritten_when_store_is_full:
  "json_value spring_sale
   \<and> fst (setActiveCampaign ''2023-11-14T22:13:21.000Z'' spring_sale private_mode_browser) = Inr ()
   \<and> storage (snd (setActiveCampaign ''2023-11-14T22:13:21.000Z'' spring_sale private_mode_browser))
       = storage private_mode_browser
   \<and> map_of (storage (snd (setActiveCampaign ''2023-11-14T22:13:21.000Z'' spring_sale
                             private_mode_browser))) ACTIVE_CAMPAIGN_KEY = None"
  by (simp add: setActiveCampaign_eq setItem_json write_accepted_json spring_sale_def
      draft_record_def private_mode_browser_def browser_with_def exhausted_def
      ACTIVE_CAMPAIGN_KEY_def)

text \<open>
  C9, amended. For every campaign record (any JSON value) \<open>setActiveCampaign\<close> returns
  normally and leaves every key other than the active-campaign pointer as it was, the
  record under \<^verbatim>\<open>campaign_\<close> plus its id among them, which therefore keeps the
  \<open>lastUpdated\<close> it had or had not. When the browser accepts the write, the pointer key
  holds the copy of the record with \<open>lastUpdated\<close> set to the current time; when it does
  not, the store is unchanged.
\<close>

theorem setActiveCampaign_frame:
  assumes "json_value c"
  shows "fst (setActiveCampaign nowIso c b) = Inr ()
   \<and> (\<forall>key. key \<noteq> ACTIVE_CAMPAIGN_KEY \<longrightarrow>
         map_of (storage (snd (setActiveCampaign nowIso c b))) key = map_of (storage b) key)
   \<and> map_of (storage (snd (setActiveCampaign nowIso c b))) (CAMPAIGN_PREFIX @ campaignId)
       = map_of (storage b) (CAMPAIGN_PREFIX @ campaignId)
   \<and> (write_accepted b ACTIVE_CAMPAIGN_KEY
         (JObj (AList.update ''lastUpdated'' (JStr nowIso) (spread_props c))) \<longrightarrow>
       map_of (storage (snd (setActiveCampaign nowIso c b))) ACTIVE_CAMPAIGN_KEY
         = Some (Json (JObj (AList.update ''lastUpdated'' (JStr nowIso) (spread_props c)))))
   \<and> (\<not> write_accepted b ACTIVE_CAMPAIGN_KEY
         (JObj (AList.update ''lastUpdated'' (JStr nowIso) (spread_props c))) \<longrightarrow>
       storage (snd (setActiveCampaign nowIso c b)) = storage b)"
proof -
  let ?copy = "JObj (AList.update ''lastUpdated'' (JStr nowIso) (spread_props c))"
  have j: "json_value ?copy"
    using json_value_update [OF json_value_spread [OF assms], of "JStr nowIso" "''lastUpdated''"]
    by simp
  have ne: "CAMPAIGN_PREFIX @ campaignId \<noteq> ACTIVE_CAMPAIGN_KEY"
    by (simp add: CAMPAIGN_PREFIX_def ACTIVE_CAMPAIGN_KEY_def)
  show ?thesis
    using setItem_frame [of _ ACTIVE_CAMPAIGN_KEY ?copy b] ne
    by (auto simp: setActiveCampaign_eq setItem_json [OF j] update_conv')
qed

theorem setActiveCampaign_frame_witness:
  "json_value spring_sale
   \<and> map_of (storage campaign_store) ''campaign_campaign_1700000000000'' = Some (Json spring_sale_saved)
   \<and> map_of (storage (snd (setActiveCampaign ''2023-11-15T22:13:21.000Z'' spring_sale campaign_store)))
        ''campaign_campaign_1700000000000'' = Some (Json spring_sale_saved)
   \<and> map_of (storage (snd (setActiveCampaign ''2023-11-15T22:13:21.000Z'' spring_sale campaign_store)))
        ''active_campaign''
       = Some (Json (JObj
           [(''id'', JStr ''campaign_1700000000000''),
            (''name'', JStr ''Spring Sale''),
            (''status'', JStr ''Draft''),
            (''assets'', JObj [(''banner'', JNull), (''marketingPage'', JNull), (''landingPage'', JNull)]),
            (''createdAt'', JStr ''2023-11-14T22:13:20.000Z''),
            (''lastUpdated'', JStr ''2023-11-15T22:13:21.000Z'')]))"
proof -
  have j: "json_value spring_sale" by (simp add: spring_sale_def draft_record_def)
  have stored: "map_of (storage campaign_store) ''campaign_campaign_1700000000000''
      = Some (Json spring_sale_saved)"
    by (simp add: campaign_store_def browser_with_def)
  have accepted: "write_accepted campaign_store ACTIVE_CAMPAIGN_KEY
      (JObj (AList.update ''lastUpdated'' (JStr ''2023-11-15T22:13:21.000Z'') (spread_props spring_sale)))"
    by (simp add: write_accepted_json spring_sale_def draft_record_def campaign_store_def
        browser_with_def unlimited_def)
  from setActiveCampaign_frame [OF j, of "''2023-11-15T22:13:21.000Z''" campaign_store
      "''campaign_1700000000000''"] accepted j stored
  show ?thesis
    by (simp add: CAMPAIGN_PREFIX_def ACTIVE_CAMPAIGN_KEY_def spring_sale_def draft_record_def)
qed

lemma json_draft_record [simp]: "json_value (draft_record i n c)"
  by (simp add: draft_record_def)

lemma truthy_draft_record [simp]: "truthy (draft_record i n c)"
  by (simp add: draft_record_def)

lemma createCampaign_eq:
  "createCampaign nowMs nowIso name b =
     (Inr (draft_record (generateCampaignId nowMs) name nowIso),
      snd (setItem (CAMPAIGN_PREFIX @ generateCampaignId nowMs)
             (draft_record (generateCampaignId nowMs) name nowIso) b))"
  using setItem_fst [of "CAMPAIGN_PREFIX @ generateCampaignId nowMs"
      "draft_record (generateCampaignId nowMs) name nowIso" b]
  by (auto simp: createCampaign_def saveCampaign_def draft_record_def and_then_def ret_def Let_def
      split: prod.splits sum.splits)

text \<open>
  C10, as stated, fails. The browser refuses the write: \<open>createCampaign\<close> returns the
  record all the same and nothing is stored under its key.
\<close>

theorem createCampaign_unsaved_when_store_is_full:
  "fst (createCampaign 1700000000000 ''2023-11-14T22:13:20.000Z'' ''Spring Sale''
          private_mode_browser) = Inr spring_sale
   \<and> storage (snd (createCampaign 1700000000000 ''2023-11-14T22:13:20.000Z'' ''Spring Sale''
                     private_mode_browser)) = storage private_mode_browser
   \<and> map_of (storage (snd (createCampaign 1700000000000 ''2023-11-14T22:13:20.000Z''
                             ''Spring Sale'' private_mode_browser)))
        ''campaign_campaign_1700000000000'' = None"
  by (simp add: createCampaign_eq setItem_json write_accepted_json spring_sale_def
      generateCampaignId_def show_nat.simps private_mode_browser_def browser_with_def
      exhausted_def CAMPAIGN_PREFIX_def)

text \<open>
  C10, amended. \<open>createCampaign\<close> returns the record with the id \<^verbatim>\<open>campaign_\<close> plus
  the current time in milliseconds, the name, status Draft, three null asset slots and
  \<open>createdAt\<close>, without \<open>lastUpdated\<close>. When the browser accepts the write, exactly
  that record is stored under \<^verbatim>\<open>campaign_\<close> plus the id, and when it does not the
  store stays as it was; no other key changes either way. A
  second call that reads the same time builds the same id and key: when both writes
  are accepted, the key then holds the second record and the store has no key more
  than after the first call.
\<close>

theorem createCampaign_record:
  "fst (createCampaign nowMs nowIso name b)
     = Inr (draft_record (''campaign_'' @ show_nat nowMs) name nowIso)
   \<and> get_prop (draft_record (''campaign_'' @ show_nat nowMs) name nowIso) ''lastUpdated'' = None
   \<and> (write_accepted b (''campaign_'' @ ''campaign_'' @ show_nat nowMs)
         (draft_record (''campaign_'' @ show_nat nowMs) name nowIso) \<longrightarrow>
       map_of (storage (snd (createCampaign nowMs nowIso name b)))
         (''campaign_'' @ ''campaign_'' @ show_nat nowMs)
         = Some (Json (draft_record (''campaign_'' @ show_nat nowMs) name nowIso)))
   \<and> (\<not> write_accepted b (''campaign_'' @ ''campaign_'' @ show_nat nowMs)
         (draft_record (''campaign_'' @ show_nat nowMs) name nowIso) \<longrightarrow>
       storage (snd (createCampaign nowMs nowIso name b)) = storage b)
   \<and> (\<forall>key. key \<noteq> ''campaign_'' @ ''campaign_'' @ show_nat nowMs \<longrightarrow>
         map_of (storage (snd (createCampaign nowMs nowIso name b))) key = map_of (storage b) key)
   \<and> (write_accepted b (''campaign_'' @ ''campaign_'' @ show_nat nowMs)
         (draft_record (''campaign_'' @ show_nat nowMs) name nowIso) \<longrightarrow>
       write_accepted (snd (createCampaign nowMs nowIso name b))
         (''campaign_'' @ ''campaign_'' @ show_nat nowMs)
         (draft_record (''campaign_'' @ show_nat nowMs) name' nowIso') \<longrightarrow>
       map_of (storage (snd (createCampaign nowMs nowIso' name'
                               (snd (createCampaign nowMs nowIso name b)))))
         (''campaign_'' @ ''campaign_'' @ show_nat nowMs)
         = Some (Json (draft_record (''campaign_'' @ show_nat nowMs) name' nowIso'))
       \<and> map fst (storage (snd (createCampaign nowMs nowIso' name'
                                  (snd (createCampaign nowMs nowIso name b)))))
         = map fst (storage (snd (createCampaign nowMs nowIso name b))))"
proof -
  let ?key = "''campaign_'' @ ''campaign_'' @ show_nat nowMs"
  let ?r = "draft_record (''campaign_'' @ show_nat nowMs) name nowIso"
  let ?r' = "draft_record (''campaign_'' @ show_nat nowMs) name' nowIso'"
  have eq: "\<And>iso n b. createCampaign nowMs iso n b
     = (Inr (draft_record (''campaign_'' @ show_nat nowMs) n iso),
        snd (setItem ?key (draft_record (''campaign_'' @ show_nat nowMs) n iso) b))"
    using createCampaign_eq by (simp add: generateCampaignId_def CAMPAIGN_PREFIX_def)
  have 1: "fst (createCampaign nowMs nowIso name b) = Inr ?r" by (simp add: eq)
  have 2: "get_prop ?r ''lastUpdated'' = None" by (simp add: draft_record_def)
  have 3: "write_accepted b ?key ?r \<longrightarrow>
       map_of (storage (snd (createCampaign nowMs nowIso name b))) ?key = Some (Json ?r)"
    by (simp add: eq setItem_accepted_storage update_conv')
  have refused: "\<not> write_accepted b ?key ?r \<longrightarrow>
       storage (snd (createCampaign nowMs nowIso name b)) = storage b"
    by (simp add: eq setItem_json)
  have 4: "\<forall>key. key \<noteq> ?key \<longrightarrow>
         map_of (storage (snd (createCampaign nowMs nowIso name b))) key = map_of (storage b) key"
    by (simp add: eq setItem_frame)
  have 5: "write_accepted b ?key ?r \<longrightarrow>
       write_accepted (snd (createCampaign nowMs nowIso name b)) ?key ?r' \<longrightarrow>
       map_of (storage (snd (createCampaign nowMs nowIso' name'
                               (snd (createCampaign nowMs nowIso name b))))) ?key = Some (Json ?r')
       \<and> map fst (storage (snd (createCampaign nowMs nowIso' name'
                                  (snd (createCampaign nowMs nowIso name b)))))
         = map fst (storage (snd (createCampaign nowMs nowIso name b)))"
    by (simp add: eq setItem_accepted_storage update_conv' update_keys dom_update)
  from 1 2 3 refused 4 5 show ?thesis by (intro conjI)
qed

theorem createCampaign_record_witness:
  "fst (createCampaign 1700086400000 ''2023-11-15T22:13:20.000Z'' ''Spring Sale'' campaign_store)
     = Inr spring_sale_again
   \<and> map_of (storage (snd (createCampaign 1700086400000 ''2023-11-15T22:13:20.000Z''
                             ''Spring Sale'' campaign_store)))
        ''campaign_campaign_1700086400000'' = Some (Json spring_sale_again)
   \<and> map_of (storage (snd (createCampaign 1700086400000 ''2023-11-15T22:13:20.000Z''
                             ''Spring Sale'' campaign_store)))
        ''campaign_campaign_1700000000000'' = Some (Json spring_sale_saved)
   \<and> map_of (storage (snd (createCampaign 1700086400000 ''2023-11-15T22:13:20.000Z'' ''Summer Sale''
             (snd (createCampaign 1700086400000 ''2023-11-15T22:13:20.000Z''
                     ''Spring Sale'' campaign_store)))))
        ''campaign_campaign_1700086400000'' = Some (Json summer_sale)
   \<and> map fst (storage (snd (createCampaign 1700086400000 ''2023-11-15T22:13:20.000Z'' ''Summer Sale''
             (snd (createCampaign 1700086400000 ''2023-11-15T22:13:20.000Z''
                     ''Spring Sale'' campaign_store)))))
       = [''campaign_campaign_1700000000000'', ''campaign_campaign_1700086400000'']"
proof -
  have digits: "show_nat 1700086400000 = ''1700086400000''"
    by (simp add: show_nat.simps)
  have first: "write_accepted campaign_store (''campaign_'' @ ''campaign_'' @ show_nat 1700086400000)
      (draft_record (''campaign_'' @ show_nat 1700086400000) ''Spring Sale'' ''2023-11-15T22:13:20.000Z'')"
    by (simp add: write_accepted_json campaign_store_def browser_with_def unlimited_def)
  have q: "quota_ok (snd (createCampaign 1700086400000 ''2023-11-15T22:13:20.000Z'' ''Spring Sale''
             campaign_store)) = unlimited"
    by (simp add: createCampaign_eq setItem_json write_accepted_json campaign_store_def
        browser_with_def unlimited_def)
  have second: "write_accepted
      (snd (createCampaign 1700086400000 ''2023-11-15T22:13:20.000Z'' ''Spring Sale'' campaign_store))
      (''campaign_'' @ ''campaign_'' @ show_nat 1700086400000)
      (draft_record (''campaign_'' @ show_nat 1700086400000) ''Summer Sale'' ''2023-11-15T22:13:20.000Z'')"
    by (simp add: write_accepted_json q unlimited_def)
  have keys: "map fst (storage (snd (createCampaign 1700086400000 ''2023-11-15T22:13:20.000Z''
             ''Spring Sale'' campaign_store)))
       = [''campaign_campaign_1700000000000'', ''campaign_campaign_1700086400000'']"
    by (simp add: createCampaign_eq setItem_json write_accepted_json campaign_store_def
        browser_with_def unlimited_def generateCampaignId_def CAMPAIGN_PREFIX_def digits)
  have old: "map_of (storage campaign_store) ''campaign_campaign_1700000000000''
      = Some (Json spring_sale_saved)"
    by (simp add: campaign_store_def browser_with_def)
  from createCampaign_record [of 1700086400000 "''2023-11-15T22:13:20.000Z''" "''Spring Sale''"
      campaign_store "''Summer Sale''" "''2023-11-15T22:13:20.000Z''"] first second keys old
  show ?thesis
    by (simp add: digits spring_sale_again_def summer_sale_def)
qed

lemma prefix_key [simp]: "starts_with (CAMPAIGN_PREFIX @ x) CAMPAIGN_PREFIX"
  by (simp add: starts_with_def)

lemma active_key_no_prefix [simp]: "\<not> starts_with ACTIVE_CAMPAIGN_KEY CAMPAIGN_PREFIX"
  by (simp add: starts_with_def ACTIVE_CAMPAIGN_KEY_def CAMPAIGN_PREFIX_def)

lemma collect_campaigns_gen:
  "(\<forall>kv \<in> set items. map_of (storage b) (fst kv) = Some (snd kv)) \<Longrightarrow>
   fst (collect_campaigns (map fst items) acc b) = Inr (acc @ stored_campaigns items)"
proof (induction items arbitrary: acc b)
  case Nil
  then show ?case by (simp add: stored_campaigns_def)
next
  case (Cons kv items)
  obtain v b' where g: "getItem (fst kv) b = (Inr v, b')"
    using getItem_total by blast
  have v: "v = stored_value (snd kv)"
    using getItem_stored [of b "fst kv" "snd kv"] Cons.prems g by simp
  have "storage b' = storage b"
    using getItem_storage [of "fst kv" b] g by (simp del: getItem_storage)
  then have prem': "\<forall>kv \<in> set items. map_of (storage b') (fst kv) = Some (snd kv)"
    "\<forall>kv \<in> set items. map_of (storage b) (fst kv) = Some (snd kv)"
    using Cons.prems by simp_all
  show ?case
    using Cons.IH [OF prem'(1)] Cons.IH [OF prem'(2)] g v
    by (simp add: and_then_def stored_campaigns_def)
qed

lemma collect_campaigns_storage:
  assumes "distinct (map fst (storage b))"
  shows "fst (collect_campaigns (map fst (storage b)) [] b) = Inr (stored_campaigns (storage b))"
proof -
  have "\<forall>kv \<in> set (storage b). map_of (storage b) (fst kv) = Some (snd kv)"
    using assms by auto
  from collect_campaigns_gen [OF this, of "[]"] show ?thesis by simp
qed

lemma mset_insert_sorted: "mset (insert_sorted cmp x ys) = add_mset x (mset ys)"
  by (induction ys) (auto split: option.splits)

lemma mset_array_sort_gen:
  "mset (foldl (\<lambda>acc x. insert_sorted cmp x acc) acc xs) = mset acc + mset xs"
  by (induction xs arbitrary: acc) (auto simp: mset_insert_sorted)

lemma mset_array_sort: "mset (array_sort cmp xs) = mset xs"
  by (simp add: array_sort_def mset_array_sort_gen)

lemma getAllCampaigns_eq:
  assumes "distinct (map fst (storage b))"
  shows "fst (getAllCampaigns Date_parse b)
           = Inr (array_sort (by_lastUpdated_desc Date_parse) (stored_campaigns (storage b)))"
  using collect_campaigns_storage [OF assms]
  by (cases "collect_campaigns (map fst (storage b)) [] b")
     (auto simp: getAllCampaigns_def and_then_def ret_def)

lemma stored_campaigns_Cons:
  "stored_campaigns (kv # items) =
     (if starts_with (fst kv) CAMPAIGN_PREFIX \<and> truthy (stored_value (snd kv))
      then stored_value (snd kv) # stored_campaigns items else stored_campaigns items)"
  by (simp add: stored_campaigns_def)

lemma stored_campaigns_other_key:
  "\<not> starts_with k CAMPAIGN_PREFIX \<Longrightarrow>
   stored_campaigns (AList.update k t items) = stored_campaigns items"
  by (induction items) (auto simp: stored_campaigns_Cons stored_campaigns_def)

lemma stored_campaigns_update:
  assumes "distinct (map fst items)" and "starts_with k CAMPAIGN_PREFIX"
      and "truthy (stored_value t)"
  shows "mset (stored_campaigns (AList.update k t items))
           = add_mset (stored_value t) (mset (stored_campaigns (AList.delete k items)))"
  using assms
proof (induction items)
  case Nil
  then show ?case by (simp add: stored_campaigns_def)
next
  case (Cons kv items)
  show ?case
  proof (cases "fst kv = k")
    case True
    then have "k \<notin> fst ` set items" using Cons.prems(1) by auto
    then have "AList.delete k items = items" by simp
    with True Cons.prems show ?thesis
      by (cases kv) (simp add: stored_campaigns_Cons)
  next
    case False
    with Cons show ?thesis
      by (cases kv) (simp add: stored_campaigns_Cons)
  qed
qed

lemma set_stored_campaigns:
  "c \<in> set (stored_campaigns items) \<Longrightarrow>
   \<exists>kv \<in> set items. starts_with (fst kv) CAMPAIGN_PREFIX \<and> c = stored_value (snd kv)"
  by (auto simp: stored_campaigns_def)

lemma set_delete: "kv \<in> set (AList.delete k items) \<Longrightarrow> kv \<in> set items \<and> fst kv \<noteq> k"
  by (auto simp: AList.delete_eq)

text \<open>
  C1, as stated, fails. A campaign named Spring Sale is stored, saved from an editor a
  day before; a second campaign of that name is created and made active. The list has
  two records of that name, and the new one, whose activation is the latest timestamp
  of all, comes last: the stored record carries no \<open>lastUpdated\<close>.
\<close>

theorem same_name_listed_twice:
  "fst (create_activate_list 1700086400000 ''2023-11-15T22:13:20.000Z''
          ''2023-11-15T22:13:21.000Z'' example_Date_parse ''Spring Sale'' campaign_store)
     = Inr [spring_sale_saved, spring_sale_again]
   \<and> has_name ''Spring Sale'' spring_sale_saved
   \<and> has_name ''Spring Sale'' spring_sale_again
   \<and> spring_sale_saved \<noteq> spring_sale_again"
proof -
  have digits: "show_nat 1700086400000 = ''1700086400000''"
    by (simp add: show_nat.simps)
  have run: "fst (create_activate_list 1700086400000 ''2023-11-15T22:13:20.000Z''
          ''2023-11-15T22:13:21.000Z'' example_Date_parse ''Spring Sale'' campaign_store)
     = Inr [spring_sale_saved, spring_sale_again]"
    by (simp add: create_activate_list_def createCampaign_eq setActiveCampaign_eq and_then_def
        setItem_json write_accepted_json campaign_store_def browser_with_def unlimited_def
        generateCampaignId_def digits CAMPAIGN_PREFIX_def ACTIVE_CAMPAIGN_KEY_def
        getAllCampaigns_def getItem_def prog_defs starts_with_def
        array_sort_def by_lastUpdated_desc_def spring_sale_saved_def spring_sale_again_def
        draft_record_def example_Date_parse_def)
  show ?thesis using run
    by (simp add: has_name_def spring_sale_saved_def spring_sale_again_def draft_record_def)
qed

lemma comparator_dated:
  assumes "lastUpdated_time Date_parse a = Some ta" and "lastUpdated_time Date_parse c = Some tc"
  shows "by_lastUpdated_desc Date_parse a c = Some (tc - ta)"
  using assms by (simp add: by_lastUpdated_desc_def lastUpdated_time_def)

lemma set_insert_sorted: "set (insert_sorted cmp x ys) = insert x (set ys)"
  by (induction ys) (auto split: option.splits)

lemma insert_sorted_newest_first:
  assumes "newest_first Date_parse ys"
      and "\<forall>c \<in> set (x # ys). lastUpdated_time Date_parse c \<noteq> None"
  shows "newest_first Date_parse (insert_sorted (by_lastUpdated_desc Date_parse) x ys)"
  using assms
proof (induction ys)
  case Nil
  then show ?case by (simp add: newest_first_def)
next
  case (Cons y ys)
  obtain tx ty where t: "lastUpdated_time Date_parse x = Some tx"
      "lastUpdated_time Date_parse y = Some ty"
    using Cons.prems(2) by auto
  have cmp: "by_lastUpdated_desc Date_parse y x = Some (tx - ty)"
    using comparator_dated [OF t(2) t(1)] .
  show ?case
  proof (cases "tx - ty > 0")
    case True
    then have "\<forall>c \<in> set (y # ys). the (lastUpdated_time Date_parse x) \<ge> the (lastUpdated_time Date_parse c)"
      using Cons.prems(1) t by (auto simp: newest_first_def)
    with True cmp Cons.prems(1) show ?thesis
      by (simp add: newest_first_def)
  next
    case False
    have tail: "newest_first Date_parse ys" using Cons.prems(1) by (simp add: newest_first_def)
    have valid: "\<forall>c \<in> set (x # ys). lastUpdated_time Date_parse c \<noteq> None"
      using Cons.prems(2) by simp
    have ih: "newest_first Date_parse (insert_sorted (by_lastUpdated_desc Date_parse) x ys)"
      using Cons.IH [OF tail valid] .
    have "\<forall>c \<in> set (insert_sorted (by_lastUpdated_desc Date_parse) x ys).
            the (lastUpdated_time Date_parse y) \<ge> the (lastUpdated_time Date_parse c)"
      using Cons.prems(1) False t by (auto simp: set_insert_sorted newest_first_def)
    with False cmp ih show ?thesis
      by (simp add: newest_first_def)
  qed
qed

lemma array_sort_newest_first_gen:
  assumes "newest_first Date_parse acc"
      and "\<forall>c \<in> set acc \<union> set xs. lastUpdated_time Date_parse c \<noteq> None"
  shows "newest_first Date_parse
           (foldl (\<lambda>acc x. insert_sorted (by_lastUpdated_desc Date_parse) x acc) acc xs)"
  using assms
proof (induction xs arbitrary: acc)
  case Nil
  then show ?case by simp
next
  case (Cons x xs)
  have "newest_first Date_parse (insert_sorted (by_lastUpdated_desc Date_parse) x acc)"
    using insert_sorted_newest_first [OF Cons.prems(1)] Cons.prems(2) by simp
  moreover have "\<forall>c \<in> set (insert_sorted (by_lastUpdated_desc Date_parse) x acc) \<union> set xs.
      lastUpdated_time Date_parse c \<noteq> None"
    using Cons.prems(2) by (auto simp: set_insert_sorted)
  ultimately show ?case using Cons.IH by simp
qed

lemma array_sort_newest_first:
  assumes "\<forall>c \<in> set xs. lastUpdated_time Date_parse c \<noteq> None"
  shows "newest_first Date_parse (array_sort (by_lastUpdated_desc Date_parse) xs)"
  using array_sort_newest_first_gen [of Date_parse "[]" xs] assms
  by (simp add: array_sort_def newest_first_def)

lemma newest_first_hd:
  assumes sorted: "newest_first Date_parse campaigns"
      and listed: "c \<in> set campaigns"
      and latest: "\<forall>d \<in> set campaigns. d \<noteq> c \<longrightarrow>
                     the (lastUpdated_time Date_parse d) < the (lastUpdated_time Date_parse c)"
  shows "hd campaigns = c"
proof (cases campaigns)
  case Nil
  with listed show ?thesis by simp
next
  case (Cons h t)
  show ?thesis
  proof (rule ccontr)
    assume "hd campaigns \<noteq> c"
    with Cons have h: "h \<noteq> c" by simp
    with listed Cons have "c \<in> set t" by simp
    with sorted Cons
    have "the (lastUpdated_time Date_parse h) \<ge> the (lastUpdated_time Date_parse c)"
      by (simp add: newest_first_def)
    moreover have "the (lastUpdated_time Date_parse h) < the (lastUpdated_time Date_parse c)"
      using latest h Cons by simp
    ultimately show False by simp
  qed
qed

lemma getAllCampaigns_newest_first:
  assumes keys: "distinct (map fst (storage b))"
      and dated: "\<forall>d \<in> set (stored_campaigns (storage b)). lastUpdated_time Date_parse d \<noteq> None"
      and stored: "c \<in> set (stored_campaigns (storage b))"
      and latest: "\<forall>d \<in> set (stored_campaigns (storage b)). d \<noteq> c \<longrightarrow>
                     the (lastUpdated_time Date_parse d) < the (lastUpdated_time Date_parse c)"
  shows "\<exists>campaigns. fst (getAllCampaigns Date_parse b) = Inr campaigns
           \<and> newest_first Date_parse campaigns \<and> hd campaigns = c"
proof -
  let ?L = "array_sort (by_lastUpdated_desc Date_parse) (stored_campaigns (storage b))"
  have run: "fst (getAllCampaigns Date_parse b) = Inr ?L"
    using getAllCampaigns_eq [OF keys] .
  have sorted: "newest_first Date_parse ?L"
    using array_sort_newest_first [OF dated] .
  have same: "set ?L = set (stored_campaigns (storage b))"
    using mset_array_sort [of "by_lastUpdated_desc Date_parse" "stored_campaigns (storage b)"]
    by (metis set_mset_mset)
  have "hd ?L = c"
    using newest_first_hd [OF sorted] stored latest by (simp add: same)
  with run sorted show ?thesis by blast
qed

lemma comparator_without_lastUpdated:
  assumes "get_prop r ''lastUpdated'' = None"
  shows "by_lastUpdated_desc Date_parse r c = None"
    and "by_lastUpdated_desc Date_parse c r = None"
  using assms by (simp_all add: by_lastUpdated_desc_def split: option.splits)

text \<open>
  C1, amended. In a store with distinct keys that accepts the write of the new record
  and holds no campaign of that name under another key, creating a campaign, making it
  active and listing all campaigns gives a list with exactly one record of that name:
  the record \<open>createCampaign\<close> returned. That record has no \<open>lastUpdated\<close>, since
  \<open>setActiveCampaign\<close> stamps the pointer copy only, and the comparator of the sort
  yields NaN for it against any record: the sort does not order it by time. Where
  every stored campaign carries a valid \<open>lastUpdated\<close>, \<open>getAllCampaigns\<close> returns
  them most recent first, and a campaign updated later than all others comes first.
\<close>

theorem created_campaign_listed_once:
  assumes keys: "distinct (map fst (storage b))"
      and accepted: "write_accepted b (CAMPAIGN_PREFIX @ generateCampaignId nowMs)
                       (draft_record (generateCampaignId nowMs) name createdIso)"
      and no_other: "\<forall>kv \<in> set (storage b).
                       fst kv \<noteq> CAMPAIGN_PREFIX @ generateCampaignId nowMs \<longrightarrow>
                       starts_with (fst kv) CAMPAIGN_PREFIX \<longrightarrow>
                       \<not> has_name name (stored_value (snd kv))"
  shows "(\<exists>campaigns.
            fst (create_activate_list nowMs createdIso activatedIso Date_parse name b) = Inr campaigns
          \<and> filter (has_name name) campaigns
              = [draft_record (generateCampaignId nowMs) name createdIso])
       \<and> get_prop (draft_record (generateCampaignId nowMs) name createdIso) ''lastUpdated'' = None
       \<and> (\<forall>c. by_lastUpdated_desc Date_parse
                  (draft_record (generateCampaignId nowMs) name createdIso) c = None
              \<and> by_lastUpdated_desc Date_parse c
                  (draft_record (generateCampaignId nowMs) name createdIso) = None)
       \<and> (distinct (map fst (storage b')) \<longrightarrow>
           (\<forall>d \<in> set (stored_campaigns (storage b')). lastUpdated_time Date_parse d \<noteq> None) \<longrightarrow>
           c \<in> set (stored_campaigns (storage b')) \<longrightarrow>
           (\<forall>d \<in> set (stored_campaigns (storage b')). d \<noteq> c \<longrightarrow>
              the (lastUpdated_time Date_parse d) < the (lastUpdated_time Date_parse c)) \<longrightarrow>
           (\<exists>campaigns. fst (getAllCampaigns Date_parse b') = Inr campaigns
              \<and> newest_first Date_parse campaigns \<and> hd campaigns = c))"
proof -
  let ?key = "CAMPAIGN_PREFIX @ generateCampaignId nowMs"
  let ?r = "draft_record (generateCampaignId nowMs) name createdIso"
  let ?b1 = "snd (setItem ?key ?r b)"
  let ?copy = "JObj (AList.update ''lastUpdated'' (JStr activatedIso) (spread_props ?r))"
  let ?b2 = "snd (setItem ACTIVE_CAMPAIGN_KEY ?copy ?b1)"
  have s1: "storage ?b1 = AList.update ?key (Json ?r) (storage b)"
    using accepted by (simp add: setItem_accepted_storage)
  have d1: "distinct (map fst (storage ?b1))"
    using keys by (simp add: s1 distinct_update)
  have sc2: "stored_campaigns (storage ?b2) = stored_campaigns (storage ?b1)"
    using setItem_storage_cases [of ACTIVE_CAMPAIGN_KEY ?copy ?b1]
    by (auto simp: stored_campaigns_other_key)
  have d2: "distinct (map fst (storage ?b2))"
    using setItem_storage_cases [of ACTIVE_CAMPAIGN_KEY ?copy ?b1] d1
    by (auto simp: distinct_update)
  let ?L = "array_sort (by_lastUpdated_desc Date_parse) (stored_campaigns (storage ?b2))"
  have run: "fst (create_activate_list nowMs createdIso activatedIso Date_parse name b) = Inr ?L"
    using getAllCampaigns_eq [OF d2, of Date_parse]
    by (simp add: create_activate_list_def createCampaign_eq setActiveCampaign_eq and_then_def)
  have others:
    "filter_mset (has_name name) (mset (stored_campaigns (AList.delete ?key (storage b)))) = {#}"
  proof -
    have "\<forall>c \<in> set (stored_campaigns (AList.delete ?key (storage b))). \<not> has_name name c"
      using no_other by (auto dest!: set_stored_campaigns set_delete)
    then show ?thesis by (simp add: filter_mset_eq_conv)
  qed
  have "mset ?L = add_mset ?r (mset (stored_campaigns (AList.delete ?key (storage b))))"
    using stored_campaigns_update [OF keys, of ?key "Json ?r"]
    by (simp add: mset_array_sort sc2 s1)
  then have "mset (filter (has_name name) ?L) = {#?r#}"
    using others by (simp add: has_name_def draft_record_def)
  then have once: "filter (has_name name) ?L = [?r]"
    by (simp only: mset_single_iff)
  have bare: "get_prop ?r ''lastUpdated'' = None"
    by (simp add: draft_record_def)
  have listing: "\<exists>campaigns.
      fst (create_activate_list nowMs createdIso activatedIso Date_parse name b) = Inr campaigns
      \<and> filter (has_name name) campaigns = [?r]"
    using run once by blast
  have unordered: "\<forall>c. by_lastUpdated_desc Date_parse ?r c = None
      \<and> by_lastUpdated_desc Date_parse c ?r = None"
    using comparator_without_lastUpdated [OF bare, of Date_parse] by blast
  have ordered: "distinct (map fst (storage b')) \<longrightarrow>
      (\<forall>d \<in> set (stored_campaigns (storage b')). lastUpdated_time Date_parse d \<noteq> None) \<longrightarrow>
      c \<in> set (stored_campaigns (storage b')) \<longrightarrow>
      (\<forall>d \<in> set (stored_campaigns (storage b')). d \<noteq> c \<longrightarrow>
         the (lastUpdated_time Date_parse d) < the (lastUpdated_time Date_parse c)) \<longrightarrow>
      (\<exists>campaigns. fst (getAllCampaigns Date_parse b') = Inr campaigns
         \<and> newest_first Date_parse campaigns \<and> hd campaigns = c)"
    using getAllCampaigns_newest_first [of b' Date_parse c] by blast
  from listing bare unordered ordered show ?thesis by (intro conjI)
qed

theorem created_campaign_listed_once_witness:
  "distinct (map fst (storage campaign_store))
   \<and> write_accepted campaign_store (CAMPAIGN_PREFIX @ generateCampaignId 1700086400000)
        (draft_record (generateCampaignId 1700086400000) ''Summer Sale'' ''2023-11-15T22:13:20.000Z'')
   \<and> \<not> has_name ''Summer Sale'' spring_sale_saved
   \<and> (\<exists>campaigns.
         fst (create_activate_list 1700086400000 ''2023-11-15T22:13:20.000Z''
                ''2023-11-15T22:13:21.000Z'' example_Date_parse ''Summer Sale'' campaign_store)
           = Inr campaigns
       \<and> filter (has_name ''Summer Sale'') campaigns = [summer_sale])
   \<and> stored_campaigns (storage dated_store) = [spring_sale_saved, summer_sale_saved]
   \<and> lastUpdated_time example_Date_parse spring_sale_saved = Some 1700000100000
   \<and> lastUpdated_time example_Date_parse summer_sale_saved = Some 1700086401000
   \<and> (\<exists>campaigns.
         fst (getAllCampaigns example_Date_parse dated_store) = Inr campaigns
       \<and> newest_first example_Date_parse campaigns \<and> hd campaigns = summer_sale_saved)"
proof -
  have keys: "distinct (map fst (storage campaign_store))"
    by (simp add: campaign_store_def browser_with_def)
  have accepted: "write_accepted campaign_store (CAMPAIGN_PREFIX @ generateCampaignId 1700086400000)
        (draft_record (generateCampaignId 1700086400000) ''Summer Sale'' ''2023-11-15T22:13:20.000Z'')"
    by (simp add: write_accepted_json campaign_store_def browser_with_def unlimited_def)
  have other_name: "\<not> has_name ''Summer Sale'' spring_sale_saved"
    by (simp add: has_name_def spring_sale_saved_def)
  have no_other: "\<forall>kv \<in> set (storage campaign_store).
      fst kv \<noteq> CAMPAIGN_PREFIX @ generateCampaignId 1700086400000 \<longrightarrow>
      starts_with (fst kv) CAMPAIGN_PREFIX \<longrightarrow>
      \<not> has_name ''Summer Sale'' (stored_value (snd kv))"
    by (simp add: campaign_store_def browser_with_def has_name_def stored_value_def
        spring_sale_saved_def)
  have digits: "generateCampaignId 1700086400000 = ''campaign_1700086400000''"
    by (simp add: generateCampaignId_def show_nat.simps)
  have dated_keys: "distinct (map fst (storage dated_store))"
    by (simp add: dated_store_def browser_with_def)
  have stored: "stored_campaigns (storage dated_store) = [spring_sale_saved, summer_sale_saved]"
    by (simp add: dated_store_def browser_with_def stored_campaigns_def starts_with_def
        CAMPAIGN_PREFIX_def spring_sale_saved_def summer_sale_saved_def stored_value_def)
  have spring: "lastUpdated_time example_Date_parse spring_sale_saved = Some 1700000100000"
    by (simp add: lastUpdated_time_def spring_sale_saved_def example_Date_parse_def)
  have summer: "lastUpdated_time example_Date_parse summer_sale_saved = Some 1700086401000"
    by (simp add: lastUpdated_time_def summer_sale_saved_def example_Date_parse_def)
  have different: "spring_sale_saved \<noteq> summer_sale_saved"
    by (simp add: spring_sale_saved_def summer_sale_saved_def)
  note scenario = created_campaign_listed_once [OF keys accepted no_other,
      of "''2023-11-15T22:13:21.000Z''" example_Date_parse dated_store summer_sale_saved]
  from scenario have listing: "\<exists>campaigns.
         fst (create_activate_list 1700086400000 ''2023-11-15T22:13:20.000Z''
                ''2023-11-15T22:13:21.000Z'' example_Date_parse ''Summer Sale'' campaign_store)
           = Inr campaigns
       \<and> filter (has_name ''Summer Sale'') campaigns = [summer_sale]"
    by (simp add: digits summer_sale_def)
  from scenario dated_keys different have ordering: "\<exists>campaigns.
         fst (getAllCampaigns example_Date_parse dated_store) = Inr campaigns
       \<and> newest_first example_Date_parse campaigns \<and> hd campaigns = summer_sale_saved"
    by (simp add: stored spring summer)
  from keys accepted other_name listing stored spring summer ordering
  show ?thesis by (intro conjI)
qed

end
